theory Spec2Isabelle
  imports Main
begin

section \<open>Plan catalog (lib/stripe.ts)\<close>

datatype PlanType = Free | Standard | Premium | Pro_yearly

datatype UsageFeature = Ocr | Export | Ai_assistant

text \<open>
  A TypeScript \<open>number\<close> that holds either an integer count or the unlimited sentinel
  \<open>Infinity\<close>. Only the operations the metering code applies to such values are given:
  subtracting a finite count, \<open>Math.max(0, _)\<close> and the comparison \<open>count < limit\<close>.
\<close>

datatype number = Number int | Infinity

fun number_minus :: "number \<Rightarrow> int \<Rightarrow> number" where
  "number_minus (Number a) b = Number (a - b)"
| "number_minus Infinity b = Infinity"

fun math_max_0 :: "number \<Rightarrow> number" where
  "math_max_0 (Number a) = Number (max 0 a)"
| "math_max_0 Infinity = Infinity"

fun less_than :: "int \<Rightarrow> number \<Rightarrow> bool" where
  "less_than a (Number b) = (a < b)"
| "less_than a Infinity = True"

record PlanLimits =
  ocrLimit :: number
  exportLimit :: number
  aiAssistantLimit :: number

fun PLAN_LIMITS :: "PlanType \<Rightarrow> PlanLimits" where
  "PLAN_LIMITS Free =
     \<lparr>ocrLimit = Number 50, exportLimit = Number 3, aiAssistantLimit = Number 10\<rparr>"
| "PLAN_LIMITS Standard =
     \<lparr>ocrLimit = Infinity, exportLimit = Infinity, aiAssistantLimit = Infinity\<rparr>"
| "PLAN_LIMITS Premium =
     \<lparr>ocrLimit = Infinity, exportLimit = Infinity, aiAssistantLimit = Infinity\<rparr>"
| "PLAN_LIMITS Pro_yearly =
     \<lparr>ocrLimit = Infinity, exportLimit = Infinity, aiAssistantLimit = Infinity\<rparr>"

definition isFreePlan :: "PlanType \<Rightarrow> bool" where
  "isFreePlan planType = (planType = Free)"

text \<open>The \<open>default: return 0\<close> arm of the switch is unreachable for the three features.\<close>

fun getFeatureLimit :: "PlanType \<Rightarrow> UsageFeature \<Rightarrow> number" where
  "getFeatureLimit planType Ocr = ocrLimit (PLAN_LIMITS planType)"
| "getFeatureLimit planType Export = exportLimit (PLAN_LIMITS planType)"
| "getFeatureLimit planType Ai_assistant = aiAssistantLimit (PLAN_LIMITS planType)"


section \<open>Calendar dates and the period key (lib/subscription.ts)\<close>

text \<open>
  A calendar date is a triple (year, month 1..12, day); the string \<open>YYYY-MM-DD\<close> that the
  database receives is represented by this triple.

  The behaviour of the JavaScript \<open>Date\<close> object is not part of the repository. It is
  modelled as far as the period key needs it: \<open>new Date(y, m, 1)\<close> is midnight of that
  day in the local time zone, and \<open>toISOString()\<close> prints the same instant in UTC. The
  time zone is given by the number of minutes local time is ahead of UTC.
\<close>

type_synonym date = "int \<times> nat \<times> nat"

definition is_leap_year :: "int \<Rightarrow> bool" where
  "is_leap_year y = (y mod 4 = 0 \<and> (y mod 100 \<noteq> 0 \<or> y mod 400 = 0))"

definition days_in_month :: "int \<Rightarrow> nat \<Rightarrow> nat" where
  "days_in_month y m =
     (if m = 2 then (if is_leap_year y then 29 else 28)
      else if m = 4 \<or> m = 6 \<or> m = 9 \<or> m = 11 then 30 else 31)"

fun prev_day :: "date \<Rightarrow> date" where
  "prev_day (y, m, d) =
     (if 1 < d then (y, m, d - 1)
      else if 1 < m then (y, m - 1, days_in_month y (m - 1))
      else (y - 1, 12, 31))"

fun next_day :: "date \<Rightarrow> date" where
  "next_day (y, m, d) =
     (if d < days_in_month y m then (y, m, d + 1)
      else if m < 12 then (y, m + 1, 1)
      else (y + 1, 1, 1))"

definition shift_days :: "int \<Rightarrow> date \<Rightarrow> date" where
  "shift_days n d = (if 0 \<le> n then (next_day ^^ nat n) d else (prev_day ^^ nat (- n)) d)"

text \<open>
  A \<open>Date\<close> value: the UTC calendar day and the minute of that day of the instant.
\<close>

record Date =
  utc_day :: date
  utc_minute :: int

text \<open>
  \<open>new Date(year, monthIndex, day)\<close>: local midnight, with \<open>monthIndex\<close> counted from 0.
\<close>

definition new_Date :: "int \<Rightarrow> int \<Rightarrow> nat \<Rightarrow> nat \<Rightarrow> Date" where
  "new_Date tz year monthIndex day =
     \<lparr>utc_day = shift_days ((- tz) div 1440) (year, monthIndex + 1, day),
      utc_minute = (- tz) mod 1440\<rparr>"

text \<open>\<open>date.toISOString().split("T")[0]\<close>\<close>

definition formatDateForDatabase :: "Date \<Rightarrow> date" where
  "formatDateForDatabase d = utc_day d"

text \<open>
  The clock of one call: the local calendar fields of \<open>new Date()\<close> (\<open>getFullYear()\<close>,
  \<open>getMonth()\<close> in 0..11, \<open>getDate()\<close>), the offset of the executing environment, and
  the instant in milliseconds (used for \<open>updated_at\<close>).
\<close>

record clock =
  fullYear :: int
  monthIndex :: nat
  dayOfMonth :: nat
  tz_offset :: int
  now_ms :: int

definition getCurrentPeriodStart :: "clock \<Rightarrow> Date" where
  "getCurrentPeriodStart now = new_Date (tz_offset now) (fullYear now) (monthIndex now) 1"

definition periodStartString :: "clock \<Rightarrow> date" where
  "periodStartString now = formatDateForDatabase (getCurrentPeriodStart now)"


section \<open>Database tables (supabase/stripe-schema.sql)\<close>

text \<open>
  The database is an external service. A table is the list of its rows; the generated
  primary key is a number. Every database call of the code may also fail for reasons
  outside the program (network, permissions): the environment of a call says which
  kinds of call fail.
\<close>

datatype db_call =
    SelectSubscription | SelectUsage | InsertUsage | UpdateUsage
  | UpsertSubscription | SelectBySubscriptionId | UpdateCanceled | UpdateFree | UpdatePastDue

type_synonym faults = "db_call \<Rightarrow> bool"

text \<open>The exceptions the library throws, one constructor for each \<open>throw new Error\<close>.\<close>

datatype error =
    SubscriptionFetchFailed
  | UsageRecordCreateFailed
  | UsageUpdateFailed
  | SubscriptionUpsertFailed
  | SubscriptionCancelFailed
  | RevertToFreeFailed
  | MissingEnvironment
  | SignatureVerificationFailed
  | StripeApiFailed

datatype subscription_status = Active | Canceled | Past_due | Trialing

record subscription_row =
  sub_id :: nat
  user_id :: string
  stripe_customer_id :: "string option"
  stripe_subscription_id :: "string option"
  plan_type :: PlanType
  status :: subscription_status
  current_period_start :: "int option"
  current_period_end :: "int option"
  updated_at :: int

record usage_row =
  usage_id :: nat
  usage_user_id :: string
  ocr_count :: int
  export_count :: int
  ai_assistant_count :: int
  period_start :: date

text \<open>
  \<open>.select("*") ... .single()\<close> yields the row when exactly one row matches and an error
  (code PGRST116) otherwise.
\<close>

definition single :: "'a list \<Rightarrow> 'a option" where
  "single rows = (case rows of [r] \<Rightarrow> Some r | _ \<Rightarrow> None)"


section \<open>Subscription lookup (lib/subscription.ts)\<close>

definition getUserSubscription ::
  "faults \<Rightarrow> subscription_row list \<Rightarrow> string \<Rightarrow> error + subscription_row option" where
  "getUserSubscription f subs userId =
     (if f SelectSubscription then Inl SubscriptionFetchFailed
      else Inr (single (filter (\<lambda>r. user_id r = userId) subs)))"

definition getUserPlanType ::
  "faults \<Rightarrow> subscription_row list \<Rightarrow> string \<Rightarrow> error + PlanType" where
  "getUserPlanType f subs userId =
     (case getUserSubscription f subs userId of
        Inl e \<Rightarrow> Inl e
      | Inr None \<Rightarrow> Inr Free
      | Inr (Some subscription) \<Rightarrow> Inr (plan_type subscription))"


section \<open>Usage ledger (lib/subscription.ts)\<close>

definition fresh_usage_id :: "usage_row list \<Rightarrow> nat" where
  "fresh_usage_id rows = Suc (fold max (map usage_id rows) 0)"

definition period_row :: "string \<Rightarrow> date \<Rightarrow> usage_row \<Rightarrow> bool" where
  "period_row userId p r = (usage_user_id r = userId \<and> period_start r = p)"

text \<open>
  The select finds the row of this user and month; when it yields nothing (no row, or
  the call failed) a zero row is inserted. The insert is refused when the table already
  holds a row for (user, month): \<open>UNIQUE(user_id, period_start)\<close>.
\<close>

definition getOrCreateUsageRecord ::
  "faults \<Rightarrow> clock \<Rightarrow> string \<Rightarrow> usage_row list \<Rightarrow> (error + usage_row) \<times> usage_row list" where
  "getOrCreateUsageRecord f now userId rows =
     (let p = periodStartString now;
          existingRecord =
            (if f SelectUsage then None else single (filter (period_row userId p) rows))
      in case existingRecord of
           Some r \<Rightarrow> (Inr r, rows)
         | None \<Rightarrow>
             (if f InsertUsage \<or> list_ex (period_row userId p) rows
              then (Inl UsageRecordCreateFailed, rows)
              else
                let newRecord =
                      \<lparr>usage_id = fresh_usage_id rows, usage_user_id = userId,
                       ocr_count = 0, export_count = 0, ai_assistant_count = 0,
                       period_start = p\<rparr>
                in (Inr newRecord, rows @ [newRecord])))"

text \<open>The second switch of \<open>incrementUsage\<close>, also used by \<open>checkUsageLimit\<close>.\<close>

fun currentCount :: "UsageFeature \<Rightarrow> usage_row \<Rightarrow> int" where
  "currentCount Ocr r = ocr_count r"
| "currentCount Export r = export_count r"
| "currentCount Ai_assistant r = ai_assistant_count r"

text \<open>\<open>.update({ [columnName]: v })\<close> on one row.\<close>

fun set_column :: "UsageFeature \<Rightarrow> int \<Rightarrow> usage_row \<Rightarrow> usage_row" where
  "set_column Ocr v r = r\<lparr>ocr_count := v\<rparr>"
| "set_column Export v r = r\<lparr>export_count := v\<rparr>"
| "set_column Ai_assistant v r = r\<lparr>ai_assistant_count := v\<rparr>"

definition update_usage_by_id ::
  "nat \<Rightarrow> UsageFeature \<Rightarrow> int \<Rightarrow> usage_row list \<Rightarrow> usage_row list" where
  "update_usage_by_id i feature v rows =
     map (\<lambda>r. if usage_id r = i then set_column feature v r else r) rows"

record UsageLimitCheckResult =
  allowed :: bool
  currentUsage :: int
  limit :: number
  remaining :: number
  planType :: PlanType

definition checkUsageLimit ::
  "faults \<Rightarrow> clock \<Rightarrow> subscription_row list \<Rightarrow> string \<Rightarrow> UsageFeature \<Rightarrow> usage_row list
     \<Rightarrow> (error + UsageLimitCheckResult) \<times> usage_row list" where
  "checkUsageLimit f now subs userId feature rows =
     (case getUserPlanType f subs userId of
        Inl e \<Rightarrow> (Inl e, rows)
      | Inr plan \<Rightarrow>
          if \<not> isFreePlan plan
          then (Inr \<lparr>allowed = True, currentUsage = 0, limit = Infinity,
                     remaining = Infinity, planType = plan\<rparr>, rows)
          else
            (case getOrCreateUsageRecord f now userId rows of
               (Inl e, rows') \<Rightarrow> (Inl e, rows')
             | (Inr usageRecord, rows') \<Rightarrow>
                 let lim = getFeatureLimit plan feature;
                     cur = currentCount feature usageRecord
                 in (Inr \<lparr>allowed = less_than cur lim, currentUsage = cur, limit = lim,
                           remaining = math_max_0 (number_minus lim cur),
                           planType = plan\<rparr>, rows')))"

definition incrementUsage ::
  "faults \<Rightarrow> clock \<Rightarrow> string \<Rightarrow> UsageFeature \<Rightarrow> usage_row list
     \<Rightarrow> (error + unit) \<times> usage_row list" where
  "incrementUsage f now userId feature rows =
     (case getOrCreateUsageRecord f now userId rows of
        (Inl e, rows') \<Rightarrow> (Inl e, rows')
      | (Inr usageRecord, rows') \<Rightarrow>
          if f UpdateUsage then (Inl UsageUpdateFailed, rows')
          else (Inr (),
                update_usage_by_id (usage_id usageRecord) feature
                  (currentCount feature usageRecord + 1) rows'))"

record UsageCount =
  used :: int
  used_limit :: number
  used_remaining :: number

record MonthlyUsage =
  monthly_ocr :: UsageCount
  monthly_export :: UsageCount
  monthly_aiAssistant :: UsageCount
  monthly_periodStart :: date
  monthly_planType :: PlanType

definition getMonthlyUsage ::
  "faults \<Rightarrow> clock \<Rightarrow> subscription_row list \<Rightarrow> string \<Rightarrow> usage_row list
     \<Rightarrow> (error + MonthlyUsage) \<times> usage_row list" where
  "getMonthlyUsage f now subs userId rows =
     (case getUserPlanType f subs userId of
        Inl e \<Rightarrow> (Inl e, rows)
      | Inr plan \<Rightarrow>
          (case getOrCreateUsageRecord f now userId rows of
             (Inl e, rows') \<Rightarrow> (Inl e, rows')
           | (Inr usageRecord, rows') \<Rightarrow>
               let limits = PLAN_LIMITS plan
               in (Inr \<lparr>monthly_ocr =
                           \<lparr>used = ocr_count usageRecord, used_limit = ocrLimit limits,
                            used_remaining =
                              math_max_0 (number_minus (ocrLimit limits) (ocr_count usageRecord))\<rparr>,
                         monthly_export =
                           \<lparr>used = export_count usageRecord, used_limit = exportLimit limits,
                            used_remaining =
                              math_max_0 (number_minus (exportLimit limits) (export_count usageRecord))\<rparr>,
                         monthly_aiAssistant =
                           \<lparr>used = ai_assistant_count usageRecord,
                            used_limit = aiAssistantLimit limits,
                            used_remaining =
                              math_max_0 (number_minus (aiAssistantLimit limits)
                                            (ai_assistant_count usageRecord))\<rparr>,
                         monthly_periodStart = period_start usageRecord,
                         monthly_planType = plan\<rparr>, rows')))"

text \<open>
  A sequence of calls of \<open>incrementUsage\<close> for one user and feature, each with its own
  environment and clock, stopping at the first call that throws.
\<close>

fun incrementUsage_calls ::
  "(faults \<times> clock) list \<Rightarrow> string \<Rightarrow> UsageFeature \<Rightarrow> usage_row list
     \<Rightarrow> (error + unit) \<times> usage_row list" where
  "incrementUsage_calls [] userId feature rows = (Inr (), rows)"
| "incrementUsage_calls ((f, now) # calls) userId feature rows =
     (case incrementUsage f now userId feature rows of
        (Inl e, rows') \<Rightarrow> (Inl e, rows')
      | (Inr _, rows') \<Rightarrow> incrementUsage_calls calls userId feature rows')"

text \<open>
  The constraints of the schema on the ledger: the primary key and
  \<open>UNIQUE(user_id, period_start)\<close>.
\<close>

definition usage_table_ok :: "usage_row list \<Rightarrow> bool" where
  "usage_table_ok rows =
     (distinct (map usage_id rows) \<and>
      distinct (map (\<lambda>r. (usage_user_id r, period_start r)) rows))"


section \<open>Stripe objects and configuration (lib/stripe.ts, webhook/route.ts)\<close>

text \<open>
  JavaScript truthiness of an optional string: \<open>null\<close>, \<open>undefined\<close> and the empty string
  are falsy. \<open>truthy\<close> keeps a value exactly when a test \<open>if (x)\<close> would pass, and
  \<open>a || b\<close> on optional strings is \<open>or_else\<close>.
\<close>

definition truthy :: "string option \<Rightarrow> string option" where
  "truthy x = (case x of None \<Rightarrow> None | Some s \<Rightarrow> if s = [] then None else Some s)"

definition or_else :: "string option \<Rightarrow> string option \<Rightarrow> string option" where
  "or_else a b = (case truthy a of Some s \<Rightarrow> Some s | None \<Rightarrow> b)"

record environment =
  STRIPE_SECRET_KEY :: "string option"
  STRIPE_WEBHOOK_SECRET :: "string option"
  NEXT_PUBLIC_SUPABASE_URL :: "string option"
  SUPABASE_SERVICE_ROLE_KEY :: "string option"
  STRIPE_PRICE_STANDARD_MONTHLY :: "string option"
  STRIPE_PRICE_PREMIUM_MONTHLY :: "string option"
  STRIPE_PRICE_PRO_YEARLY :: "string option"

record STRIPE_PRICE_IDS =
  standard :: string
  premium :: string
  pro_yearly :: string

definition STRIPE_PRICE_IDS :: "environment \<Rightarrow> STRIPE_PRICE_IDS" where
  "STRIPE_PRICE_IDS env =
     \<lparr>standard =
        (case truthy (STRIPE_PRICE_STANDARD_MONTHLY env) of
           Some s \<Rightarrow> s | None \<Rightarrow> ''price_standard_monthly''),
      premium =
        (case truthy (STRIPE_PRICE_PREMIUM_MONTHLY env) of
           Some s \<Rightarrow> s | None \<Rightarrow> ''price_premium_monthly''),
      pro_yearly =
        (case truthy (STRIPE_PRICE_PRO_YEARLY env) of
           Some s \<Rightarrow> s | None \<Rightarrow> ''price_pro_yearly'')\<rparr>"

text \<open>
  An object literal with computed keys: a later key replaces an equal earlier one.
  These are the own properties of the object.
\<close>

definition PRICE_ID_TO_PLAN :: "environment \<Rightarrow> string \<rightharpoonup> PlanType" where
  "PRICE_ID_TO_PLAN env =
     [standard (STRIPE_PRICE_IDS env) \<mapsto> Standard,
      premium (STRIPE_PRICE_IDS env) \<mapsto> Premium,
      pro_yearly (STRIPE_PRICE_IDS env) \<mapsto> Pro_yearly]"

text \<open>
  What \<open>PRICE_ID_TO_PLAN[priceId]\<close> yields. The object literal inherits from
  \<open>Object.prototype\<close>, so indexing it finds an own key first and then the members of
  the prototype: its methods, which are functions, and under \<open>__proto__\<close> the
  prototype object itself. Any other name yields undefined.
\<close>

datatype plan_value =
    Plan PlanType
  | Inherited_function
  | Inherited_object

definition Object_prototype_methods :: "string list" where
  "Object_prototype_methods =
     [''constructor'', ''hasOwnProperty'', ''isPrototypeOf'', ''propertyIsEnumerable'',
      ''toLocaleString'', ''toString'', ''valueOf'',
      ''__defineGetter__'', ''__defineSetter__'', ''__lookupGetter__'', ''__lookupSetter__'']"

definition property_of_PRICE_ID_TO_PLAN :: "environment \<Rightarrow> string \<Rightarrow> plan_value option" where
  "property_of_PRICE_ID_TO_PLAN env priceId =
     (case PRICE_ID_TO_PLAN env priceId of
        Some plan \<Rightarrow> Some (Plan plan)
      | None \<Rightarrow>
          if priceId \<in> set Object_prototype_methods then Some Inherited_function
          else if priceId = ''__proto__'' then Some Inherited_object
          else None)"

text \<open>
  \<open>PRICE_ID_TO_PLAN[priceId] || null\<close>: a plan name, a function and an object are all
  truthy, so only undefined becomes null.
\<close>

definition getPlanTypeFromPriceId :: "environment \<Rightarrow> string \<Rightarrow> plan_value option" where
  "getPlanTypeFromPriceId env priceId = property_of_PRICE_ID_TO_PLAN env priceId"

text \<open>
  A field of a Stripe object that holds the id of another object, the expanded object
  (of which the code reads the id only), or null.
\<close>

datatype expandable = Id_string string | Expanded string | Null

text \<open>\<open>typeof x === "string" ? x : x?.id\<close>\<close>

fun id_of :: "expandable \<Rightarrow> string option" where
  "id_of (Id_string s) = Some s"
| "id_of (Expanded i) = Some i"
| "id_of Null = None"

text \<open>\<open>typeof x === "string" ? x : x?.id || ""\<close>\<close>

fun customerId_of :: "expandable \<Rightarrow> string" where
  "customerId_of (Id_string s) = s"
| "customerId_of (Expanded i) = (case truthy (Some i) of Some s \<Rightarrow> s | None \<Rightarrow> [])"
| "customerId_of Null = []"

record stripe_subscription =
  subscription_id :: string
  subscription_metadata_supabase_user_id :: "string option"
  subscription_price_id :: "string option"
  subscription_customer :: expandable
  subscription_status :: string
  subscription_current_period_start :: int
  subscription_current_period_end :: int
  cancel_at_period_end :: bool

record checkout_session =
  session_id :: string
  session_subscription :: expandable
  session_metadata_supabase_user_id :: "string option"
  session_customer :: expandable

record invoice =
  invoice_id :: string
  invoice_subscription :: expandable

datatype stripe_event =
    Checkout_session_completed checkout_session
  | Customer_subscription_updated stripe_subscription
  | Customer_subscription_deleted stripe_subscription
  | Invoice_payment_failed invoice
  | Other_event string

text \<open>
  What lies outside the program during one webhook request: the environment variables,
  the signature check of the Stripe library (\<open>None\<close> when it throws), the Stripe API call
  \<open>subscriptions.retrieve\<close> (\<open>None\<close> when it throws) and the database calls that fail.
\<close>

record services =
  process_env :: environment
  constructEvent :: "string \<Rightarrow> string \<Rightarrow> string \<Rightarrow> stripe_event option"
  subscriptions_retrieve :: "string \<Rightarrow> stripe_subscription option"
  db_faults :: faults

definition getStripeClient :: "environment \<Rightarrow> error + unit" where
  "getStripeClient env =
     (case truthy (STRIPE_SECRET_KEY env) of None \<Rightarrow> Inl MissingEnvironment | Some _ \<Rightarrow> Inr ())"

definition createSupabaseAdminClient :: "environment \<Rightarrow> error + unit" where
  "createSupabaseAdminClient env =
     (case truthy (NEXT_PUBLIC_SUPABASE_URL env) of
        None \<Rightarrow> Inl MissingEnvironment
      | Some _ \<Rightarrow>
          (case truthy (SUPABASE_SERVICE_ROLE_KEY env) of
             None \<Rightarrow> Inl MissingEnvironment | Some _ \<Rightarrow> Inr ()))"

definition verifyStripeWebhook :: "services \<Rightarrow> string \<Rightarrow> string \<Rightarrow> error + stripe_event" where
  "verifyStripeWebhook sv body signature =
     (case getStripeClient (process_env sv) of
        Inl e \<Rightarrow> Inl e
      | Inr _ \<Rightarrow>
          (case truthy (STRIPE_WEBHOOK_SECRET (process_env sv)) of
             None \<Rightarrow> Inl MissingEnvironment
           | Some webhookSecret \<Rightarrow>
               (case constructEvent sv body signature webhookSecret of
                  None \<Rightarrow> Inl SignatureVerificationFailed
                | Some event \<Rightarrow> Inr event)))"


section \<open>Writing the subscriptions table (lib/subscription.ts)\<close>

definition fresh_sub_id :: "subscription_row list \<Rightarrow> nat" where
  "fresh_sub_id subs = Suc (fold max (map sub_id subs) 0)"

text \<open>
  \<open>upsert(..., { onConflict: "user_id" })\<close>: the row of the user is overwritten in the
  columns given; without such a row one is inserted. Time stamps are milliseconds.

  The row travels as JSON text. A plan travels as its name. A property whose value is a
  function is left out of the text, so the column \<open>plan_type\<close> is not among the
  columns given: the row of the user keeps its plan, and a new row gets the default of
  the column, \<open>'free'\<close>. An object travels as \<open>{}\<close>, which the CHECK constraint on
  \<open>plan_type\<close> refuses, and the call fails.
\<close>

fun plan_type_written :: "plan_value \<Rightarrow> PlanType \<Rightarrow> PlanType" where
  "plan_type_written (Plan plan) previous = plan"
| "plan_type_written Inherited_function previous = previous"
| "plan_type_written Inherited_object previous = previous"

definition upsertSubscription ::
  "faults \<Rightarrow> int \<Rightarrow> string \<Rightarrow> string \<Rightarrow> string \<Rightarrow> plan_value \<Rightarrow> subscription_status
     \<Rightarrow> int \<Rightarrow> int \<Rightarrow> subscription_row list \<Rightarrow> (error + unit) \<times> subscription_row list" where
  "upsertSubscription f t userId stripeCustomerId stripeSubscriptionId plan st
       currentPeriodStart currentPeriodEnd subs =
     (if f UpsertSubscription \<or> plan = Inherited_object
      then (Inl SubscriptionUpsertFailed, subs)
      else if list_ex (\<lambda>r. user_id r = userId) subs
      then (Inr (),
            map (\<lambda>r. if user_id r = userId
                      then r\<lparr>stripe_customer_id := Some stripeCustomerId,
                             stripe_subscription_id := Some stripeSubscriptionId,
                             plan_type := plan_type_written plan (plan_type r), status := st,
                             current_period_start := Some currentPeriodStart,
                             current_period_end := Some currentPeriodEnd,
                             updated_at := t\<rparr>
                      else r) subs)
      else (Inr (),
            subs @ [\<lparr>sub_id = fresh_sub_id subs, user_id = userId,
                      stripe_customer_id = Some stripeCustomerId,
                      stripe_subscription_id = Some stripeSubscriptionId,
                      plan_type = plan_type_written plan Free, status = st,
                      current_period_start = Some currentPeriodStart,
                      current_period_end = Some currentPeriodEnd,
                      updated_at = t\<rparr>]))"

definition cancelSubscription ::
  "faults \<Rightarrow> int \<Rightarrow> string \<Rightarrow> subscription_row list \<Rightarrow> (error + unit) \<times> subscription_row list" where
  "cancelSubscription f t stripeSubscriptionId subs =
     (if f UpdateCanceled then (Inl SubscriptionCancelFailed, subs)
      else (Inr (),
            map (\<lambda>r. if stripe_subscription_id r = Some stripeSubscriptionId
                      then r\<lparr>status := Canceled, updated_at := t\<rparr>
                      else r) subs))"

definition revertToFreePlan ::
  "faults \<Rightarrow> int \<Rightarrow> string \<Rightarrow> subscription_row list \<Rightarrow> (error + unit) \<times> subscription_row list" where
  "revertToFreePlan f t stripeSubscriptionId subs =
     (if f UpdateFree then (Inl RevertToFreeFailed, subs)
      else (Inr (),
            map (\<lambda>r. if stripe_subscription_id r = Some stripeSubscriptionId
                      then r\<lparr>plan_type := Free, status := Active,
                             stripe_subscription_id := None,
                             current_period_start := None, current_period_end := None,
                             updated_at := t\<rparr>
                      else r) subs))"


section \<open>Webhook handlers (app/api/stripe/webhook/route.ts)\<close>

text \<open>
  How a handler that does not throw ends: it wrote to the table, or it logged one of
  its messages and returned without writing.
\<close>

datatype outcome =
    Applied
  | No_subscription_id
  | No_user_id
  | Unknown_price_id
  | Status_update_error
  | Unhandled_event_type

definition plan_of_price :: "environment \<Rightarrow> string option \<Rightarrow> plan_value option" where
  "plan_of_price env priceId =
     (case truthy priceId of None \<Rightarrow> None | Some p \<Rightarrow> getPlanTypeFromPriceId env p)"

definition map_status :: "string \<Rightarrow> subscription_status" where
  "map_status s =
     (if s = ''canceled'' \<or> s = ''incomplete_expired'' then Canceled
      else if s = ''past_due'' \<or> s = ''unpaid'' then Past_due
      else if s = ''trialing'' then Trialing
      else Active)"

definition applied ::
  "(error + unit) \<times> subscription_row list \<Rightarrow> (error + outcome) \<times> subscription_row list" where
  "applied res = (case res of (Inl e, subs) \<Rightarrow> (Inl e, subs) | (Inr _, subs) \<Rightarrow> (Inr Applied, subs))"

definition handleCheckoutCompleted ::
  "services \<Rightarrow> int \<Rightarrow> checkout_session \<Rightarrow> subscription_row list
     \<Rightarrow> (error + outcome) \<times> subscription_row list" where
  "handleCheckoutCompleted sv t session subs =
     (case getStripeClient (process_env sv) of
        Inl e \<Rightarrow> (Inl e, subs)
      | Inr _ \<Rightarrow>
     (case createSupabaseAdminClient (process_env sv) of
        Inl e \<Rightarrow> (Inl e, subs)
      | Inr _ \<Rightarrow>
     (case truthy (id_of (session_subscription session)) of
        None \<Rightarrow> (Inr No_subscription_id, subs)
      | Some subscriptionId \<Rightarrow>
     (case subscriptions_retrieve sv subscriptionId of
        None \<Rightarrow> (Inl StripeApiFailed, subs)
      | Some subscription \<Rightarrow>
     (case or_else (subscription_metadata_supabase_user_id subscription)
                   (truthy (session_metadata_supabase_user_id session)) of
        None \<Rightarrow> (Inr No_user_id, subs)
      | Some userId \<Rightarrow>
     (case plan_of_price (process_env sv) (subscription_price_id subscription) of
        None \<Rightarrow> (Inr Unknown_price_id, subs)
      | Some plan \<Rightarrow>
          applied (upsertSubscription (db_faults sv) t userId
                     (customerId_of (session_customer session)) subscriptionId plan Active
                     (subscription_current_period_start subscription * 1000)
                     (subscription_current_period_end subscription * 1000) subs)))))))"

definition handleSubscriptionUpdated ::
  "services \<Rightarrow> int \<Rightarrow> stripe_subscription \<Rightarrow> subscription_row list
     \<Rightarrow> (error + outcome) \<times> subscription_row list" where
  "handleSubscriptionUpdated sv t subscription subs =
     (case createSupabaseAdminClient (process_env sv) of
        Inl e \<Rightarrow> (Inl e, subs)
      | Inr _ \<Rightarrow>
     (case truthy (subscription_metadata_supabase_user_id subscription) of
        None \<Rightarrow>
          (case (if db_faults sv SelectBySubscriptionId then None
                 else single (filter (\<lambda>r. stripe_subscription_id r
                                           = Some (subscription_id subscription)) subs)) of
             None \<Rightarrow> (Inr No_user_id, subs)
           | Some existingSubscription \<Rightarrow>
          (case truthy (Some (user_id existingSubscription)) of
             None \<Rightarrow> (Inr No_user_id, subs)
           | Some existing_user_id \<Rightarrow>
          (case plan_of_price (process_env sv) (subscription_price_id subscription) of
             None \<Rightarrow> (Inr Unknown_price_id, subs)
           | Some plan \<Rightarrow>
               applied (upsertSubscription (db_faults sv) t existing_user_id
                          (customerId_of (subscription_customer subscription))
                          (subscription_id subscription) plan
                          (map_status (subscription_status subscription))
                          (subscription_current_period_start subscription * 1000)
                          (subscription_current_period_end subscription * 1000) subs))))
      | Some userId \<Rightarrow>
          (case plan_of_price (process_env sv) (subscription_price_id subscription) of
             None \<Rightarrow> (Inr Unknown_price_id, subs)
           | Some plan \<Rightarrow>
               applied (upsertSubscription (db_faults sv) t userId
                          (customerId_of (subscription_customer subscription))
                          (subscription_id subscription) plan
                          (map_status (subscription_status subscription))
                          (subscription_current_period_start subscription * 1000)
                          (subscription_current_period_end subscription * 1000) subs))))"

definition handleSubscriptionDeleted ::
  "services \<Rightarrow> int \<Rightarrow> stripe_subscription \<Rightarrow> subscription_row list
     \<Rightarrow> (error + outcome) \<times> subscription_row list" where
  "handleSubscriptionDeleted sv t subscription subs =
     (case createSupabaseAdminClient (process_env sv) of
        Inl e \<Rightarrow> (Inl e, subs)
      | Inr _ \<Rightarrow>
     (case cancelSubscription (db_faults sv) t (subscription_id subscription) subs of
        (Inl e, subs') \<Rightarrow> (Inl e, subs')
      | (Inr _, subs') \<Rightarrow>
          if \<not> cancel_at_period_end subscription
          then applied (revertToFreePlan (db_faults sv) t (subscription_id subscription) subs')
          else (Inr Applied, subs')))"

definition handlePaymentFailed ::
  "services \<Rightarrow> int \<Rightarrow> invoice \<Rightarrow> subscription_row list
     \<Rightarrow> (error + outcome) \<times> subscription_row list" where
  "handlePaymentFailed sv t failed subs =
     (case createSupabaseAdminClient (process_env sv) of
        Inl e \<Rightarrow> (Inl e, subs)
      | Inr _ \<Rightarrow>
     (case truthy (id_of (invoice_subscription failed)) of
        None \<Rightarrow> (Inr No_subscription_id, subs)
      | Some subscriptionId \<Rightarrow>
          if db_faults sv UpdatePastDue then (Inr Status_update_error, subs)
          else (Inr Applied,
                map (\<lambda>r. if stripe_subscription_id r = Some subscriptionId
                          then r\<lparr>status := Past_due, updated_at := t\<rparr>
                          else r) subs)))"

text \<open>The \<open>switch (event.type)\<close> of the endpoint.\<close>

fun handleEvent ::
  "services \<Rightarrow> int \<Rightarrow> stripe_event \<Rightarrow> subscription_row list
     \<Rightarrow> (error + outcome) \<times> subscription_row list" where
  "handleEvent sv t (Checkout_session_completed session) subs =
     handleCheckoutCompleted sv t session subs"
| "handleEvent sv t (Customer_subscription_updated subscription) subs =
     handleSubscriptionUpdated sv t subscription subs"
| "handleEvent sv t (Customer_subscription_deleted subscription) subs =
     handleSubscriptionDeleted sv t subscription subs"
| "handleEvent sv t (Invoice_payment_failed failed) subs =
     handlePaymentFailed sv t failed subs"
| "handleEvent sv t (Other_event event_type) subs = (Inr Unhandled_event_type, subs)"

text \<open>
  The customer-portal endpoint (Stripe Customer Portal API) takes a subscription to have a
  Stripe customer by the test \<open>!subscription?.stripe_customer_id\<close>: null and the empty
  string both count as no customer.
\<close>

definition has_stripe_customer :: "subscription_row \<Rightarrow> bool" where
  "has_stripe_customer r = (truthy (stripe_customer_id r) \<noteq> None)"

text \<open>
  The endpoint. The request is its raw body and the \<open>stripe-signature\<close> header; the
  answer is the HTTP status. The state is the whole database, of which the handlers
  reach the subscriptions table only.
\<close>

record database =
  subscriptions :: "subscription_row list"
  usage_tracking :: "usage_row list"

record webhook_request =
  request_text :: string
  stripe_signature :: "string option"

definition POST :: "services \<Rightarrow> int \<Rightarrow> webhook_request \<Rightarrow> database \<Rightarrow> nat \<times> database" where
  "POST sv t request db =
     (case truthy (stripe_signature request) of
        None \<Rightarrow> (400, db)
      | Some signature \<Rightarrow>
          (case verifyStripeWebhook sv (request_text request) signature of
             Inl verifyError \<Rightarrow> (400, db)
           | Inr event \<Rightarrow>
               (case handleEvent sv t event (subscriptions db) of
                  (Inl e, subs') \<Rightarrow> (500, db\<lparr>subscriptions := subs'\<rparr>)
                | (Inr _, subs') \<Rightarrow> (200, db\<lparr>subscriptions := subs'\<rparr>))))"


section \<open>Metered features (api/ocr/route.ts, api/ai-assistant/route.ts, ExportButton)\<close>

record usageInfo =
  info_currentUsage :: int
  info_limit :: number
  info_remaining :: number
  info_planType :: PlanType

text \<open>
  The JSON bodies the two endpoints answer with: the result with the usage snapshot,
  the refusal with the snapshot of the check, or an error message.
\<close>

datatype response_body =
    Success string usageInfo
  | Usage_limit_exceeded usageInfo
  | Error_body

text \<open>
  \<open>openai.chat.completions.create\<close>: it throws an error that may carry an HTTP status,
  or returns the content of the first choice, if any.
\<close>

datatype completion = Api_throws "nat option" | Api_returns "string option"

text \<open>
  What lies outside the program during one request of an endpoint: the logged-in user
  (\<open>None\<close> without a session), the field read from \<open>request.json()\<close> (\<open>None\<close> when
  parsing the body throws), the API key, the answer of the model, the JSON object that
  \<open>JSON.parse\<close> finds in a text (\<open>None\<close> when there is none), and the database calls that
  fail during the check and during the increment.
\<close>

record request_world =
  auth_user :: "string option"
  request_json :: "string option option"
  OPENAI_API_KEY :: "string option"
  chat_completion :: completion
  JSON_parse :: "string \<Rightarrow> string option"
  faults_at_check :: faults
  faults_at_increment :: faults

text \<open>The status the \<open>catch\<close> of the OCR endpoint answers with.\<close>

definition ocr_error_status :: "nat option \<Rightarrow> nat" where
  "ocr_error_status st = (if st = Some 401 then 401 else if st = Some 429 then 429 else 500)"

definition ocr_POST ::
  "clock \<Rightarrow> request_world \<Rightarrow> subscription_row list \<Rightarrow> usage_row list
     \<Rightarrow> (nat \<times> response_body) \<times> usage_row list" where
  "ocr_POST now w subs rows =
     (case auth_user w of
        None \<Rightarrow> ((401, Error_body), rows)
      | Some user \<Rightarrow>
     (case checkUsageLimit (faults_at_check w) now subs user Ocr rows of
        (Inl e, rows1) \<Rightarrow> ((ocr_error_status None, Error_body), rows1)
      | (Inr usageCheck, rows1) \<Rightarrow>
     if \<not> allowed usageCheck
     then ((403, Usage_limit_exceeded
                   \<lparr>info_currentUsage = currentUsage usageCheck, info_limit = limit usageCheck,
                    info_remaining = remaining usageCheck,
                    info_planType = planType usageCheck\<rparr>), rows1)
     else
     (case request_json w of
        None \<Rightarrow> ((ocr_error_status None, Error_body), rows1)
      | Some imageBase64 \<Rightarrow>
     (case truthy imageBase64 of
        None \<Rightarrow> ((400, Error_body), rows1)
      | Some image_data \<Rightarrow>
     (case truthy (OPENAI_API_KEY w) of
        None \<Rightarrow> ((500, Error_body), rows1)
      | Some apiKey \<Rightarrow>
     (case chat_completion w of
        Api_throws st \<Rightarrow> ((ocr_error_status st, Error_body), rows1)
      | Api_returns content \<Rightarrow>
     (case truthy content of
        None \<Rightarrow> ((500, Error_body), rows1)
      | Some resultText \<Rightarrow>
     (case JSON_parse w resultText of
        None \<Rightarrow> ((500, Error_body), rows1)
      | Some ocrResult \<Rightarrow>
          ((200, Success ocrResult
                   \<lparr>info_currentUsage = currentUsage usageCheck + 1,
                    info_limit = limit usageCheck,
                    info_remaining = number_minus (remaining usageCheck) 1,
                    info_planType = planType usageCheck\<rparr>),
           snd (incrementUsage (faults_at_increment w) now user Ocr rows1))))))))))"

text \<open>\<open>message.trim().length === 0\<close>, on the white space of ASCII.\<close>

definition blank :: "string \<Rightarrow> bool" where
  "blank s = list_all (\<lambda>c. c \<in> set [CHR '' '', CHR 0x09, CHR 0x0A, CHR 0x0B, CHR 0x0C, CHR 0x0D]) s"

definition ai_error_status :: "nat option \<Rightarrow> nat" where
  "ai_error_status st = (if st = Some 429 then 429 else 500)"

text \<open>
  The assistant endpoint. Reading the business data of the user for the prompt is
  wrapped in its own \<open>try\<close> and does not touch the ledger; it has no branch here.
\<close>

definition ai_assistant_POST ::
  "clock \<Rightarrow> request_world \<Rightarrow> subscription_row list \<Rightarrow> usage_row list
     \<Rightarrow> (nat \<times> response_body) \<times> usage_row list" where
  "ai_assistant_POST now w subs rows =
     (case auth_user w of
        None \<Rightarrow> ((401, Error_body), rows)
      | Some user \<Rightarrow>
     (case checkUsageLimit (faults_at_check w) now subs user Ai_assistant rows of
        (Inl e, rows1) \<Rightarrow> ((ai_error_status None, Error_body), rows1)
      | (Inr usageCheck, rows1) \<Rightarrow>
     if \<not> allowed usageCheck
     then ((403, Usage_limit_exceeded
                   \<lparr>info_currentUsage = currentUsage usageCheck, info_limit = limit usageCheck,
                    info_remaining = remaining usageCheck,
                    info_planType = planType usageCheck\<rparr>), rows1)
     else
     (case request_json w of
        None \<Rightarrow> ((ai_error_status None, Error_body), rows1)
      | Some message_field \<Rightarrow>
     (case truthy message_field of
        None \<Rightarrow> ((400, Error_body), rows1)
      | Some message \<Rightarrow>
     if blank message then ((400, Error_body), rows1)
     else if 1000 < length message then ((400, Error_body), rows1)
     else
     (case truthy (OPENAI_API_KEY w) of
        None \<Rightarrow> ((500, Error_body), rows1)
      | Some apiKey \<Rightarrow>
     (case chat_completion w of
        Api_throws st \<Rightarrow> ((ai_error_status st, Error_body), rows1)
      | Api_returns content \<Rightarrow>
     (case truthy content of
        None \<Rightarrow> ((500, Error_body), rows1)
      | Some assistantMessage \<Rightarrow>
          ((200, Success assistantMessage
                   \<lparr>info_currentUsage = currentUsage usageCheck + 1,
                    info_limit = limit usageCheck,
                    info_remaining = number_minus (remaining usageCheck) 1,
                    info_planType = planType usageCheck\<rparr>),
           snd (incrementUsage (faults_at_increment w) now user Ai_assistant rows1)))))))))"

text \<open>
  The export runs in the browser, in the click handler of the export button. Its
  visible result is the error message it sets, if any; it returns nothing.
\<close>

datatype export_error = Login_required | Limit_reached number | No_data | Export_failed

record export_world =
  export_auth_user :: "string option"
  sales_result :: "nat option"
  expenses_result :: "nat option"
  download_throws :: bool
  export_faults_at_check :: faults
  export_faults_at_increment :: faults

definition handleExport ::
  "clock \<Rightarrow> export_world \<Rightarrow> subscription_row list \<Rightarrow> usage_row list
     \<Rightarrow> export_error option \<times> usage_row list" where
  "handleExport now w subs rows =
     (case export_auth_user w of
        None \<Rightarrow> (Some Login_required, rows)
      | Some user \<Rightarrow>
     (case checkUsageLimit (export_faults_at_check w) now subs user Export rows of
        (Inl e, rows1) \<Rightarrow> (Some Export_failed, rows1)
      | (Inr usageCheck, rows1) \<Rightarrow>
     if \<not> allowed usageCheck then (Some (Limit_reached (limit usageCheck)), rows1)
     else
     (case sales_result w of
        None \<Rightarrow> (Some Export_failed, rows1)
      | Some salesData \<Rightarrow>
     (case expenses_result w of
        None \<Rightarrow> (Some Export_failed, rows1)
      | Some expensesData \<Rightarrow>
     if salesData = 0 \<and> expensesData = 0 then (Some No_data, rows1)
     else if download_throws w then (Some Export_failed, rows1)
     else (None,
           snd (incrementUsage (export_faults_at_increment w) now user Export rows1))))))"

text \<open>What a caller of a metered feature gets back, and the usage snapshot in it.\<close>

datatype feature_result = Http nat response_body | Handler "export_error option"

fun usage_snapshot :: "feature_result \<Rightarrow> usageInfo option" where
  "usage_snapshot (Http st (Success result info)) = Some info"
| "usage_snapshot (Http st (Usage_limit_exceeded info)) = Some info"
| "usage_snapshot (Http st Error_body) = None"
| "usage_snapshot (Handler e) = None"

section \<open>Notions used in the statements\<close>

text \<open>
  The counter of a feature that the ledger holds for a user and a month: the counter of
  the entry for that month, and 0 when there is no entry yet.
\<close>

definition ledger_count :: "usage_row list \<Rightarrow> string \<Rightarrow> date \<Rightarrow> UsageFeature \<Rightarrow> int" where
  "ledger_count rows userId p feature =
     (case single (filter (period_row userId p) rows) of
        Some r \<Rightarrow> currentCount feature r | None \<Rightarrow> 0)"

definition zero_row :: "nat \<Rightarrow> string \<Rightarrow> date \<Rightarrow> usage_row" where
  "zero_row i userId p =
     \<lparr>usage_id = i, usage_user_id = userId, ocr_count = 0, export_count = 0,
      ai_assistant_count = 0, period_start = p\<rparr>"

definition free_limit :: "UsageFeature \<Rightarrow> int" where
  "free_limit feature = (case feature of Ocr \<Rightarrow> 50 | Export \<Rightarrow> 3 | Ai_assistant \<Rightarrow> 10)"

text \<open>
  One entry before and after an operation: it is the same entry (key, user, month) and
  no counter is lower. A ledger before and after: every entry stays at its place with
  no counter lower; entries are only added behind.
\<close>

definition counters_le :: "usage_row \<Rightarrow> usage_row \<Rightarrow> bool" where
  "counters_le r r' =
     (usage_id r' = usage_id r \<and> usage_user_id r' = usage_user_id r \<and>
      period_start r' = period_start r \<and> ocr_count r \<le> ocr_count r' \<and>
      export_count r \<le> export_count r' \<and> ai_assistant_count r \<le> ai_assistant_count r')"

definition ledger_le :: "usage_row list \<Rightarrow> usage_row list \<Rightarrow> bool" where
  "ledger_le rows rows' =
     (length rows \<le> length rows' \<and> list_all2 counters_le rows (take (length rows) rows'))"

text \<open>
  A clock the runtime can report: a month index below 12 and an offset between
  UTC-12:00 and UTC+14:00.
\<close>

definition clock_ok :: "clock \<Rightarrow> bool" where
  "clock_ok c = (monthIndex c < 12 \<and> - 720 \<le> tz_offset c \<and> tz_offset c \<le> 840)"

text \<open>The month a period key stands for: a first day its own month, a last day the next.\<close>

fun month_of_key :: "date \<Rightarrow> int \<times> nat" where
  "month_of_key (y, m, d) =
     (if d = 1 then (y, m) else if m = 12 then (y + 1, 1) else (y, m + 1))"

definition no_faults :: faults where
  "no_faults = (\<lambda>_. False)"

text \<open>Clocks of the examples: a server on UTC and a machine on Japan Standard Time.\<close>

definition utc_2024_01_31 :: clock where
  "utc_2024_01_31 =
     \<lparr>fullYear = 2024, monthIndex = 0, dayOfMonth = 31, tz_offset = 0, now_ms = 1706700000000\<rparr>"

definition utc_2024_02_01 :: clock where
  "utc_2024_02_01 =
     \<lparr>fullYear = 2024, monthIndex = 1, dayOfMonth = 1, tz_offset = 0, now_ms = 1706790000000\<rparr>"

definition jst_2024_01_15 :: clock where
  "jst_2024_01_15 =
     \<lparr>fullYear = 2024, monthIndex = 0, dayOfMonth = 15, tz_offset = 540, now_ms = 1705287600000\<rparr>"

text \<open>
  The Subscription Record of the specification: the user, the plan tier, the billing
  status, the two external references and the period bounds. It is what a row of the
  subscriptions table says about the subscription; the key of the row and the time of
  its last write are not part of it.
\<close>

record SubscriptionRecord =
  rec_userId :: string
  rec_planTier :: PlanType
  rec_billingStatus :: subscription_status
  rec_externalCustomerRef :: "string option"
  rec_externalSubscriptionRef :: "string option"
  rec_periodStart :: "int option"
  rec_periodEnd :: "int option"

definition subscription_record :: "subscription_row \<Rightarrow> SubscriptionRecord" where
  "subscription_record r =
     \<lparr>rec_userId = user_id r, rec_planTier = plan_type r, rec_billingStatus = status r,
      rec_externalCustomerRef = stripe_customer_id r,
      rec_externalSubscriptionRef = stripe_subscription_id r,
      rec_periodStart = current_period_start r, rec_periodEnd = current_period_end r\<rparr>"


text \<open>
  A row before and after a webhook event: it is the same row of the same user, and if
  it had a Stripe customer, as the customer-portal endpoint tests it, it still has one.
  A table before and after: every row stays at its place and keeps its customer in this
  sense; rows are only added behind.
\<close>

definition customer_kept :: "subscription_row \<Rightarrow> subscription_row \<Rightarrow> bool" where
  "customer_kept r r' =
     (sub_id r' = sub_id r \<and> user_id r' = user_id r \<and>
      (has_stripe_customer r \<longrightarrow> has_stripe_customer r'))"

definition customers_kept :: "subscription_row list \<Rightarrow> subscription_row list \<Rightarrow> bool" where
  "customers_kept subs subs' =
     (length subs \<le> length subs' \<and> list_all2 customer_kept subs (take (length subs) subs'))"

text \<open>
  The example of the webhook scenarios: a configured deployment with the default price
  ids, a user on the premium plan, and the events Stripe sends about the subscription.
\<close>

definition example_env :: environment where
  "example_env =
     \<lparr>STRIPE_SECRET_KEY = Some ''sk_test_1'', STRIPE_WEBHOOK_SECRET = Some ''whsec_1'',
      NEXT_PUBLIC_SUPABASE_URL = Some ''https://project.supabase.co'',
      SUPABASE_SERVICE_ROLE_KEY = Some ''service-role-key'',
      STRIPE_PRICE_STANDARD_MONTHLY = None, STRIPE_PRICE_PREMIUM_MONTHLY = None,
      STRIPE_PRICE_PRO_YEARLY = None\<rparr>"

definition premium_row :: subscription_row where
  "premium_row =
     \<lparr>sub_id = 1, user_id = ''user-1'', stripe_customer_id = Some ''cus_1'',
      stripe_subscription_id = Some ''sub_1'', plan_type = Premium, status = Active,
      current_period_start = Some 1704067200000, current_period_end = Some 1706745600000,
      updated_at = 1704067200000\<rparr>"

definition premium_subscription :: stripe_subscription where
  "premium_subscription =
     \<lparr>subscription_id = ''sub_1'', subscription_metadata_supabase_user_id = Some ''user-1'',
      subscription_price_id = Some ''price_premium_monthly'',
      subscription_customer = Id_string ''cus_1'', subscription_status = ''canceled'',
      subscription_current_period_start = 1704067200,
      subscription_current_period_end = 1706745600, cancel_at_period_end = False\<rparr>"

definition completed_session :: checkout_session where
  "completed_session =
     \<lparr>session_id = ''cs_1'', session_subscription = Id_string ''sub_1'',
      session_metadata_supabase_user_id = Some ''user-1'',
      session_customer = Id_string ''cus_1''\<rparr>"

definition moved_to_standard :: stripe_subscription where
  "moved_to_standard =
     \<lparr>subscription_id = ''sub_1'', subscription_metadata_supabase_user_id = None,
      subscription_price_id = Some ''price_standard_monthly'',
      subscription_customer = Id_string ''cus_1'', subscription_status = ''past_due'',
      subscription_current_period_start = 1706745600,
      subscription_current_period_end = 1709251200, cancel_at_period_end = False\<rparr>"

definition unknown_price :: stripe_subscription where
  "unknown_price =
     \<lparr>subscription_id = ''sub_1'', subscription_metadata_supabase_user_id = Some ''user-1'',
      subscription_price_id = Some ''price_enterprise'',
      subscription_customer = Id_string ''cus_1'', subscription_status = ''active'',
      subscription_current_period_start = 1706745600,
      subscription_current_period_end = 1709251200, cancel_at_period_end = False\<rparr>"

text \<open>A subscription whose price id is the name of a method of \<open>Object.prototype\<close>.\<close>

definition constructor_price :: stripe_subscription where
  "constructor_price =
     \<lparr>subscription_id = ''sub_2'', subscription_metadata_supabase_user_id = Some ''user-1'',
      subscription_price_id = Some ''constructor'',
      subscription_customer = Id_string ''cus_2'', subscription_status = ''past_due'',
      subscription_current_period_start = 1706745600,
      subscription_current_period_end = 1709251200, cancel_at_period_end = False\<rparr>"

definition example_services :: services where
  "example_services =
     \<lparr>process_env = example_env,
      constructEvent =
        (\<lambda>body signature secret.
           if signature = ''t=1,v1=valid'' \<and> secret = ''whsec_1''
           then Some (Customer_subscription_updated unknown_price) else None),
      subscriptions_retrieve = (\<lambda>i. if i = ''sub_1'' then Some premium_subscription else None),
      db_faults = no_faults\<rparr>"

text \<open>The deployment when the event Stripe has signed is the one with that price id.\<close>

definition constructor_services :: services where
  "constructor_services =
     example_services
       \<lparr>constructEvent :=
          (\<lambda>body signature secret.
             if signature = ''t=1,v1=valid'' \<and> secret = ''whsec_1''
             then Some (Customer_subscription_updated constructor_price) else None)\<rparr>"


definition example_database :: database where
  "example_database =
     \<lparr>subscriptions = [premium_row],
      usage_tracking =
        [\<lparr>usage_id = 1, usage_user_id = ''user-2'', ocr_count = 4, export_count = 1,
          ai_assistant_count = 0, period_start = (2024, 1, 1)\<rparr>]\<rparr>"

text \<open>
  The snapshot an endpoint computes from the result of its check after a use:
  \<open>{currentUsage + 1, limit, remaining - 1, planType}\<close>.
\<close>

definition snapshot_after :: "UsageLimitCheckResult \<Rightarrow> usageInfo" where
  "snapshot_after usageCheck =
     \<lparr>info_currentUsage = currentUsage usageCheck + 1, info_limit = limit usageCheck,
      info_remaining = number_minus (remaining usageCheck) 1,
      info_planType = planType usageCheck\<rparr>"

text \<open>
  Requests of the examples: a receipt scan that succeeds and an export with data to
  write, both by a user on the free plan.
\<close>

definition scan_request :: request_world where
  "scan_request =
     \<lparr>auth_user = Some ''user-1'', request_json = Some (Some ''data:image/jpeg;base64,AAAA''),
      OPENAI_API_KEY = Some ''sk-1'', chat_completion = Api_returns (Some ''{amount: 5000}''),
      JSON_parse = (\<lambda>text. Some text),
      faults_at_check = no_faults, faults_at_increment = no_faults\<rparr>"

definition export_request :: export_world where
  "export_request =
     \<lparr>export_auth_user = Some ''user-1'', sales_result = Some 2, expenses_result = Some 5,
      download_throws = False, export_faults_at_check = no_faults,
      export_faults_at_increment = no_faults\<rparr>"

definition update_fails :: faults where
  "update_fails = (\<lambda>c. c = UpdateUsage)"


section \<open>Properties of the usage ledger\<close>

subsection \<open>Auxiliary facts\<close>

lemma fold_max_ge: "(a::nat) \<le> fold max xs a"
  by (induction xs arbitrary: a) (auto intro: order_trans[OF max.cobounded2])

lemma fold_max_upper: "x \<in> set xs \<Longrightarrow> (x::nat) \<le> fold max xs a"
proof (induction xs arbitrary: a)
  case Nil then show ?case by simp
next
  case (Cons y ys)
  show ?case
  proof (cases "x = y")
    case True
    have "y \<le> max y a" by simp
    also have "\<dots> \<le> fold max ys (max y a)" by (rule fold_max_ge)
    finally show ?thesis using True by simp
  next
    case False
    with Cons show ?thesis by simp
  qed
qed

lemma fresh_usage_id_new: "r \<in> set rows \<Longrightarrow> usage_id r \<noteq> fresh_usage_id rows"
proof
  assume a: "r \<in> set rows" and e: "usage_id r = fresh_usage_id rows"
  from a have "usage_id r \<in> set (map usage_id rows)" by simp
  then have "usage_id r \<le> fold max (map usage_id rows) 0" by (rule fold_max_upper)
  with e show False by (simp add: fresh_usage_id_def)
qed

lemma filter_period_row_unique:
  "distinct (map (\<lambda>r. (usage_user_id r, period_start r)) rows) \<Longrightarrow> r \<in> set rows \<Longrightarrow>
   filter (period_row (usage_user_id r) (period_start r)) rows = [r]"
proof (induction rows)
  case Nil then show ?case by simp
next
  case (Cons a rows)
  show ?case
  proof (cases "a = r")
    case True
    have "filter (period_row (usage_user_id r) (period_start r)) rows = []"
      using Cons.prems(1) True by (auto simp: filter_empty_conv period_row_def image_iff)
    then show ?thesis using True by (simp add: period_row_def[abs_def])
  next
    case False
    then have "r \<in> set rows" using Cons.prems(2) by simp
    moreover have "\<not> period_row (usage_user_id r) (period_start r) a"
      using Cons.prems(1) \<open>r \<in> set rows\<close> by (auto simp: period_row_def image_iff)
    ultimately show ?thesis using Cons by simp
  qed
qed

lemma single_Some: "single xs = Some r \<longleftrightarrow> xs = [r]"
  by (auto simp: single_def split: list.splits)

lemma single_Nil: "single [] = None" by (simp add: single_def)

lemma list_ex_filter_Nil: "\<not> list_ex P xs \<Longrightarrow> filter P xs = []"
  by (simp add: list_ex_iff filter_empty_conv)

lemma getOrCreate_cases:
  assumes "getOrCreateUsageRecord f now userId rows = (Inr r, rows')"
  shows "(rows' = rows \<and> filter (period_row userId (periodStartString now)) rows = [r]) \<or>
         (rows' = rows @ [r] \<and> filter (period_row userId (periodStartString now)) rows = [] \<and>
          r = zero_row (fresh_usage_id rows) userId (periodStartString now))"
  using assms
  by (auto simp: getOrCreateUsageRecord_def Let_def single_Some zero_row_def list_ex_filter_Nil
           split: option.splits if_splits)

lemma getOrCreate_error_unchanged:
  "getOrCreateUsageRecord f now userId rows = (Inl e, rows') \<Longrightarrow> rows' = rows"
  by (auto simp: getOrCreateUsageRecord_def Let_def split: option.splits if_splits)

lemma getOrCreate_no_faults:
  assumes "usage_table_ok rows" "\<not> f SelectUsage" "\<not> f InsertUsage"
  shows "\<exists>r rows'. getOrCreateUsageRecord f now userId rows = (Inr r, rows')"
proof (cases "list_ex (period_row userId (periodStartString now)) rows")
  case False
  then show ?thesis using assms
    by (simp add: getOrCreateUsageRecord_def Let_def list_ex_filter_Nil single_Nil)
next
  case True
  then obtain r where r: "r \<in> set rows" "period_row userId (periodStartString now) r"
    by (auto simp: list_ex_iff)
  then have "filter (period_row userId (periodStartString now)) rows = [r]"
    using filter_period_row_unique[of rows r] assms(1)
    by (simp add: usage_table_ok_def period_row_def)
  then show ?thesis using assms
    by (simp add: getOrCreateUsageRecord_def Let_def single_def)
qed

lemma set_column_keys [simp]:
  "usage_id (set_column feature v r) = usage_id r"
  "usage_user_id (set_column feature v r) = usage_user_id r"
  "period_start (set_column feature v r) = period_start r"
  by (cases feature; simp)+

lemma currentCount_set_column [simp]: "currentCount feature (set_column feature v r) = v"
  by (cases feature) simp_all

lemma currentCount_set_column_other:
  "ft \<noteq> feature \<Longrightarrow> currentCount ft (set_column feature v r) = currentCount ft r"
  by (cases ft; cases feature) simp_all

lemma update_keeps_ok: "usage_table_ok rows \<Longrightarrow> usage_table_ok (update_usage_by_id i feature v rows)"
proof -
  have k: "map usage_id (update_usage_by_id i feature v rows) = map usage_id rows"
    by (simp add: update_usage_by_id_def)
  have u: "map (\<lambda>r. (usage_user_id r, period_start r)) (update_usage_by_id i feature v rows)
           = map (\<lambda>r. (usage_user_id r, period_start r)) rows"
    by (simp add: update_usage_by_id_def)
  show "usage_table_ok rows \<Longrightarrow> usage_table_ok (update_usage_by_id i feature v rows)"
    unfolding usage_table_ok_def k u by simp
qed

lemma append_keeps_ok:
  assumes "usage_table_ok rows" "filter (period_row userId p) rows = []"
  shows "usage_table_ok (rows @ [zero_row (fresh_usage_id rows) userId p])"
proof -
  have "\<forall>r\<in>set rows. usage_id r \<noteq> fresh_usage_id rows" by (simp add: fresh_usage_id_new)
  moreover have "\<forall>r\<in>set rows. \<not> period_row userId p r"
    using assms(2) by (simp add: filter_empty_conv)
  ultimately show ?thesis using assms(1)
    by (auto simp: usage_table_ok_def zero_row_def period_row_def image_iff)
qed

lemma getOrCreate_keeps_ok:
  "usage_table_ok rows \<Longrightarrow> getOrCreateUsageRecord f now userId rows = (res, rows') \<Longrightarrow>
   usage_table_ok rows'"
  by (cases res) (auto dest!: getOrCreate_cases getOrCreate_error_unchanged intro: append_keeps_ok)

lemma filter_after_update:
  assumes fr: "filter (period_row userId p) rows = [r]"
  shows "filter (period_row userId p) (update_usage_by_id (usage_id r) feature v rows)
         = [set_column feature v r]"
proof -
  have pr: "period_row userId p \<circ> (\<lambda>x. if usage_id x = usage_id r then set_column feature v x else x)
            = period_row userId p"
    by (auto simp: period_row_def fun_eq_iff)
  have "filter (period_row userId p) (update_usage_by_id (usage_id r) feature v rows)
        = map (\<lambda>x. if usage_id x = usage_id r then set_column feature v x else x)
            (filter (period_row userId p) rows)"
    unfolding update_usage_by_id_def filter_map pr ..
  then show ?thesis using fr by simp
qed

lemma getOrCreate_filter:
  assumes "usage_table_ok rows" "getOrCreateUsageRecord f now userId rows = (Inr r, rows')"
  shows "filter (period_row userId (periodStartString now)) rows' = [r]"
  using getOrCreate_cases[OF assms(2)]
  by (auto simp: zero_row_def period_row_def)

lemma getOrCreate_count:
  assumes "getOrCreateUsageRecord f now userId rows = (Inr r, rows')"
  shows "currentCount feature r = ledger_count rows userId (periodStartString now) feature"
  using getOrCreate_cases[OF assms]
  by (cases feature) (auto simp: ledger_count_def single_def zero_row_def)

lemma getOrCreate_member:
  "getOrCreateUsageRecord f now userId rows = (Inr r, rows') \<Longrightarrow> r \<in> set rows'"
  by (drule getOrCreate_cases) (auto dest: filter_eq_ConsD)

lemma incrementUsage_step:
  assumes ok: "usage_table_ok rows"
    and inc: "incrementUsage f now userId feature rows = (Inr (), rows')"
  shows "usage_table_ok rows' \<and>
         ledger_count rows' userId (periodStartString now) feature
           = ledger_count rows userId (periodStartString now) feature + 1"
proof -
  from inc obtain r rows1 where
    g: "getOrCreateUsageRecord f now userId rows = (Inr r, rows1)" and
    r': "rows' = update_usage_by_id (usage_id r) feature (currentCount feature r + 1) rows1"
    by (auto simp: incrementUsage_def split: prod.splits sum.splits if_splits)
  have ok1: "usage_table_ok rows1" using ok g by (rule getOrCreate_keeps_ok)
  have f1: "filter (period_row userId (periodStartString now)) rows1 = [r]"
    using ok g by (rule getOrCreate_filter)
  have "filter (period_row userId (periodStartString now)) rows'
        = [set_column feature (currentCount feature r + 1) r]"
    unfolding r' using f1 by (rule filter_after_update)
  then have "ledger_count rows' userId (periodStartString now) feature = currentCount feature r + 1"
    by (simp add: ledger_count_def single_def)
  moreover have "usage_table_ok rows'" unfolding r' using ok1 by (rule update_keeps_ok)
  ultimately show ?thesis using getOrCreate_count[OF g] by simp
qed

lemma incrementUsage_calls_count:
  assumes "usage_table_ok rows"
    and "\<forall>c\<in>set calls. periodStartString (snd c) = p"
    and "incrementUsage_calls calls userId feature rows = (Inr (), rows')"
  shows "usage_table_ok rows' \<and>
         ledger_count rows' userId p feature = ledger_count rows userId p feature + int (length calls)"
  using assms
proof (induction calls arbitrary: rows)
  case Nil
  then show ?case by simp
next
  case (Cons c calls)
  obtain f now where c: "c = (f, now)" by (cases c)
  from Cons.prems(3) obtain rows1 where
    one: "incrementUsage f now userId feature rows = (Inr (), rows1)" and
    rest: "incrementUsage_calls calls userId feature rows1 = (Inr (), rows')"
    by (auto simp: c split: prod.splits sum.splits)
  have p: "periodStartString now = p" using Cons.prems(2) by (simp add: c)
  have s1: "usage_table_ok rows1 \<and>
            ledger_count rows1 userId p feature = ledger_count rows userId p feature + 1"
    using incrementUsage_step[OF Cons.prems(1) one] by (simp add: p)
  have "usage_table_ok rows' \<and>
        ledger_count rows' userId p feature = ledger_count rows1 userId p feature + int (length calls)"
    using Cons.IH[of rows1] s1 Cons.prems(2) rest by simp
  then show ?case using s1 by simp
qed

lemma checkUsageLimit_free:
  assumes plan: "getUserPlanType f subs userId = Inr Free"
    and ok: "usage_table_ok rows"
    and nf: "\<not> f SelectUsage" "\<not> f InsertUsage"
  shows "fst (checkUsageLimit f now subs userId feature rows) =
         Inr \<lparr>allowed = less_than (ledger_count rows userId (periodStartString now) feature)
                          (getFeatureLimit Free feature),
              currentUsage = ledger_count rows userId (periodStartString now) feature,
              limit = getFeatureLimit Free feature,
              remaining = math_max_0 (number_minus (getFeatureLimit Free feature)
                            (ledger_count rows userId (periodStartString now) feature)),
              planType = Free\<rparr>"
proof -
  obtain r rows' where g: "getOrCreateUsageRecord f now userId rows = (Inr r, rows')"
    using getOrCreate_no_faults[OF ok nf] by blast
  show ?thesis
    using getOrCreate_count[OF g, of feature]
    by (simp add: checkUsageLimit_def plan isFreePlan_def g Let_def)
qed

lemma getFeatureLimit_Free: "getFeatureLimit Free feature = Number (free_limit feature)"
  by (cases feature) (simp_all add: free_limit_def)

lemma counters_le_refl: "counters_le r r" by (simp add: counters_le_def)

lemma ledger_le_append: "ledger_le rows (rows @ xs)"
  by (simp add: ledger_le_def list_all2_same counters_le_refl)

lemma ledger_le_refl: "ledger_le rows rows"
  using ledger_le_append[of rows "[]"] by simp

lemma counters_le_trans: "counters_le a b \<Longrightarrow> counters_le b c \<Longrightarrow> counters_le a c"
  by (auto simp: counters_le_def)

lemma ledger_le_trans:
  assumes "ledger_le xs ys" "ledger_le ys zs"
  shows "ledger_le xs zs"
proof -
  have l: "length xs \<le> length ys" "length ys \<le> length zs"
    using assms by (simp_all add: ledger_le_def)
  have a: "list_all2 counters_le xs (take (length xs) ys)"
    using assms(1) by (simp add: ledger_le_def)
  have "list_all2 counters_le ys (take (length ys) zs)"
    using assms(2) by (simp add: ledger_le_def)
  then have "list_all2 counters_le (take (length xs) ys) (take (length xs) (take (length ys) zs))"
    by (rule list_all2_takeI)
  moreover have "take (length xs) (take (length ys) zs) = take (length xs) zs"
    using l by (simp add: min_def)
  ultimately have "list_all2 counters_le xs (take (length xs) zs)"
    using a by (auto elim: list_all2_trans[rotated] intro: counters_le_trans)
  then show ?thesis using l by (simp add: ledger_le_def)
qed

lemma ledger_le_update:
  assumes ok: "usage_table_ok rows" and r: "r \<in> set rows" and v: "currentCount feature r \<le> v"
  shows "ledger_le rows (update_usage_by_id (usage_id r) feature v rows)"
proof -
  have inj: "inj_on usage_id (set rows)"
    using ok by (simp add: usage_table_ok_def distinct_map)
  have "counters_le x (if usage_id x = usage_id r then set_column feature v x else x)"
    if "x \<in> set rows" for x
  proof (cases "usage_id x = usage_id r")
    case True
    then have "x = r" using inj that r by (auto dest: inj_onD)
    then show ?thesis using v by (cases feature) (simp_all add: counters_le_def)
  next
    case False
    then show ?thesis by (simp add: counters_le_refl)
  qed
  then show ?thesis
    by (simp add: ledger_le_def update_usage_by_id_def list_all2_map2 list_all2_same)
qed

lemma getOrCreate_ledger_le:
  "getOrCreateUsageRecord f now userId rows = (res, rows') \<Longrightarrow> ledger_le rows rows'"
  by (cases res)
     (auto dest!: getOrCreate_cases getOrCreate_error_unchanged
           simp: ledger_le_refl ledger_le_append)

lemma checkUsageLimit_ledger_le:
  "ledger_le rows (snd (checkUsageLimit f now subs userId feature rows))"
  by (auto simp: checkUsageLimit_def Let_def ledger_le_refl
           split: sum.splits prod.splits dest: getOrCreate_ledger_le)

lemma getMonthlyUsage_ledger_le:
  "ledger_le rows (snd (getMonthlyUsage f now subs userId rows))"
  by (auto simp: getMonthlyUsage_def Let_def ledger_le_refl
           split: sum.splits prod.splits dest: getOrCreate_ledger_le)

lemma incrementUsage_ledger_le:
  assumes ok: "usage_table_ok rows"
  shows "ledger_le rows (snd (incrementUsage f now userId feature rows))"
proof (cases "getOrCreateUsageRecord f now userId rows")
  case (Pair res rows1)
  have le1: "ledger_le rows rows1" using Pair by (rule getOrCreate_ledger_le)
  show ?thesis
  proof (cases res)
    case (Inl e)
    then show ?thesis using Pair le1 by (simp add: incrementUsage_def)
  next
    case (Inr r)
    have ok1: "usage_table_ok rows1" using ok Pair by (rule getOrCreate_keeps_ok)
    have m: "r \<in> set rows1" using Pair Inr by (auto dest: getOrCreate_member)
    have "ledger_le rows1
            (update_usage_by_id (usage_id r) feature (currentCount feature r + 1) rows1)"
      using ok1 m by (rule ledger_le_update) simp
    then show ?thesis using Pair Inr le1
      by (auto simp: incrementUsage_def intro: ledger_le_trans)
  qed
qed

lemma filter_map_unchanged:
  "(\<And>x. x \<in> set xs \<Longrightarrow> P (g x) = P x \<and> (P x \<longrightarrow> g x = x)) \<Longrightarrow>
   filter P (map g xs) = filter P xs"
  by (induction xs) auto

lemma incrementUsage_frame:
  assumes ok: "usage_table_ok rows"
    and inc: "incrementUsage f now userId feature rows = (Inr (), rows')"
    and other: "(u, p, ft) \<noteq> (userId, periodStartString now, feature)"
  shows "ledger_count rows' u p ft = ledger_count rows u p ft"
proof -
  let ?P = "periodStartString now"
  from inc obtain r rows1 where
    g: "getOrCreateUsageRecord f now userId rows = (Inr r, rows1)" and
    r': "rows' = update_usage_by_id (usage_id r) feature (currentCount feature r + 1) rows1"
    by (auto simp: incrementUsage_def split: prod.splits sum.splits if_splits)
  have ok1: "usage_table_ok rows1" using ok g by (rule getOrCreate_keeps_ok)
  have f1: "filter (period_row userId ?P) rows1 = [r]" using ok g by (rule getOrCreate_filter)
  have m: "r \<in> set rows1" using g by (rule getOrCreate_member)
  have kr: "usage_user_id r = userId" "period_start r = ?P"
    using f1 by (auto dest!: filter_eq_ConsD simp: period_row_def)
  show ?thesis
  proof (cases "(u, p) = (userId, ?P)")
    case True
    then have ne: "ft \<noteq> feature" using other by auto
    have "filter (period_row u p) rows' = [set_column feature (currentCount feature r + 1) r]"
      unfolding r' using f1 True by (simp add: filter_after_update)
    then have "ledger_count rows' u p ft = currentCount ft r"
      using ne by (simp add: ledger_count_def single_def currentCount_set_column_other)
    then show ?thesis using getOrCreate_count[OF g, of ft] True by simp
  next
    case False
    have inj: "inj_on usage_id (set rows1)"
      using ok1 by (simp add: usage_table_ok_def distinct_map)
    have "filter (period_row u p) rows' = filter (period_row u p) rows1"
      unfolding r' update_usage_by_id_def
    proof (rule filter_map_unchanged, intro conjI impI)
      fix x assume x: "x \<in> set rows1"
      show "period_row u p (if usage_id x = usage_id r
                then set_column feature (currentCount feature r + 1) x else x) = period_row u p x"
        by (simp add: period_row_def)
      assume "period_row u p x"
      then have "x \<noteq> r" using False kr by (auto simp: period_row_def)
      then have "usage_id x \<noteq> usage_id r" using inj x m by (auto dest: inj_onD)
      then show "(if usage_id x = usage_id r
                then set_column feature (currentCount feature r + 1) x else x) = x" by simp
    qed
    also have "\<dots> = filter (period_row u p) rows"
      using getOrCreate_cases[OF g] False by (auto simp: zero_row_def period_row_def)
    finally show ?thesis by (simp add: ledger_count_def)
  qed
qed

lemma periodStartString_cases:
  assumes "clock_ok c"
  shows "periodStartString c =
         (if tz_offset c \<le> 0 then (fullYear c, monthIndex c + 1, 1)
          else prev_day (fullYear c, monthIndex c + 1, 1))"
proof (cases "tz_offset c \<le> 0")
  case True
  then have "(- tz_offset c) div 1440 = 0" using assms by (simp add: clock_ok_def)
  then show ?thesis using True
    by (simp add: periodStartString_def formatDateForDatabase_def getCurrentPeriodStart_def
                  new_Date_def shift_days_def)
next
  case False
  moreover have "tz_offset c \<le> 840" using assms by (simp add: clock_ok_def)
  ultimately have "(- tz_offset c) div 1440 = - 1" by (simp add: zdiv_zminus1_eq_if)
  then show ?thesis using False
    by (simp add: periodStartString_def formatDateForDatabase_def getCurrentPeriodStart_def
                  new_Date_def shift_days_def)
qed

lemma days_in_month_gt1: "1 < days_in_month y m"
  by (simp add: days_in_month_def)

lemma month_of_key_period:
  assumes "clock_ok c"
  shows "month_of_key (periodStartString c) = (fullYear c, monthIndex c + 1)"
proof -
  have "monthIndex c < 12" using assms by (simp add: clock_ok_def)
  then show ?thesis
    using days_in_month_gt1[of "fullYear c" "monthIndex c"]
    by (auto simp: periodStartString_cases[OF assms])
qed

lemma period_keys_differ:
  assumes "clock_ok c1" "clock_ok c2"
    and "(fullYear c1, monthIndex c1) \<noteq> (fullYear c2, monthIndex c2)"
  shows "periodStartString c1 \<noteq> periodStartString c2"
proof
  assume "periodStartString c1 = periodStartString c2"
  then have "month_of_key (periodStartString c1) = month_of_key (periodStartString c2)" by simp
  then show False using assms by (simp add: month_of_key_period)
qed

subsection \<open>The free quota\<close>

text \<open>
  Claim C1. A user on the free plan has made \<open>n\<close> successful calls of \<open>incrementUsage\<close>
  for a feature in the current month, starting from a month without recorded use of
  that feature. Then \<open>checkUsageLimit\<close> returns, reports \<open>currentUsage = n\<close> against the
  free limit (OCR 50, export 3, AI assistant 10), and \<open>allowed\<close> holds exactly when
  \<open>n\<close> is below the limit: true for every \<open>n < limit\<close>, false after exactly \<open>limit\<close>
  increments. For the export feature and three increments the result is
  \<open>{allowed: false, currentUsage: 3, limit: 3, remaining: 0}\<close>.
\<close>

theorem free_plan_quota:
  assumes "getUserPlanType f subs userId = Inr Free"
    and "usage_table_ok rows"
    and "ledger_count rows userId p feature = 0"
    and "\<forall>c\<in>set calls. periodStartString (snd c) = p"
    and "incrementUsage_calls calls userId feature rows = (Inr (), rows')"
    and "periodStartString now = p"
    and "\<not> f SelectUsage" and "\<not> f InsertUsage"
  shows "fst (checkUsageLimit f now subs userId feature rows') =
         Inr \<lparr>allowed = (int (length calls) < free_limit feature),
              currentUsage = int (length calls),
              limit = Number (free_limit feature),
              remaining = Number (max 0 (free_limit feature - int (length calls))),
              planType = Free\<rparr>"
proof -
  have c: "usage_table_ok rows' \<and>
           ledger_count rows' userId p feature = int (length calls)"
    using incrementUsage_calls_count[OF assms(2) assms(4) assms(5)] assms(3) by simp
  show ?thesis
    using checkUsageLimit_free[OF assms(1) _ assms(7) assms(8), of rows' now feature] c assms(6)
    by (simp add: getFeatureLimit_Free)
qed

theorem free_plan_quota_witness:
  "incrementUsage_calls
     [(no_faults, utc_2024_01_31), (no_faults, utc_2024_01_31), (no_faults, utc_2024_01_31)]
     ''user-1'' Export []
   = (Inr (), [\<lparr>usage_id = 1, usage_user_id = ''user-1'', ocr_count = 0, export_count = 3,
               ai_assistant_count = 0, period_start = (2024, 1, 1)\<rparr>]) \<and>
   fst (checkUsageLimit no_faults utc_2024_01_31 [] ''user-1'' Export
          [\<lparr>usage_id = 1, usage_user_id = ''user-1'', ocr_count = 0, export_count = 3,
            ai_assistant_count = 0, period_start = (2024, 1, 1)\<rparr>])
   = Inr \<lparr>allowed = False, currentUsage = 3, limit = Number 3, remaining = Number 0,
          planType = Free\<rparr>"
proof -
  let ?calls = "[(no_faults, utc_2024_01_31), (no_faults, utc_2024_01_31),
                 (no_faults, utc_2024_01_31)]"
  let ?rows' = "[\<lparr>usage_id = 1, usage_user_id = ''user-1'', ocr_count = 0, export_count = 3,
                  ai_assistant_count = 0, period_start = (2024, 1, 1)\<rparr>]"
  have h1: "getUserPlanType no_faults [] ''user-1'' = Inr Free" by code_simp
  have h2: "usage_table_ok []" by code_simp
  have h3: "ledger_count [] ''user-1'' (2024, 1, 1) Export = 0" by code_simp
  have k: "periodStartString utc_2024_01_31 = (2024, 1, 1)" by code_simp
  have h4: "\<forall>c\<in>set ?calls. periodStartString (snd c) = (2024, 1, 1)" by (simp add: k)
  have h5: "incrementUsage_calls ?calls ''user-1'' Export [] = (Inr (), ?rows')" by code_simp
  have h7: "\<not> no_faults SelectUsage" and h8: "\<not> no_faults InsertUsage"
    by (simp_all add: no_faults_def)
  show ?thesis
    using free_plan_quota[OF h1 h2 h3 h4 h5 k h7 h8] h5 by (simp add: free_limit_def)
qed

text \<open>
  Claim C6. For a user whose plan is any tier other than free, \<open>checkUsageLimit\<close> returns
  \<open>allowed = true\<close>, \<open>currentUsage = 0\<close> and the unlimited sentinel as limit, whatever the
  ledger holds (so whatever increments have occurred) and whatever the clock is. The
  ledger is returned as it was, and the result does not depend on it or on whether the
  ledger calls would fail: the ledger is neither read nor written.
\<close>

theorem paid_plan_unlimited:
  assumes "getUserPlanType f subs userId = Inr plan" and "plan \<noteq> Free"
  shows "checkUsageLimit f now subs userId feature rows =
         (Inr \<lparr>allowed = True, currentUsage = 0, limit = Infinity, remaining = Infinity,
               planType = plan\<rparr>, rows)"
  using assms by (simp add: checkUsageLimit_def isFreePlan_def)

theorem paid_plan_unlimited_witness:
  "checkUsageLimit no_faults utc_2024_01_31
     [\<lparr>sub_id = 1, user_id = ''user-1'', stripe_customer_id = Some ''cus_1'',
       stripe_subscription_id = Some ''sub_1'', plan_type = Premium, status = Active,
       current_period_start = Some 1704067200000, current_period_end = Some 1706745600000,
       updated_at = 1704067200000\<rparr>]
     ''user-1'' Ocr
     [\<lparr>usage_id = 1, usage_user_id = ''user-1'', ocr_count = 70, export_count = 3,
       ai_assistant_count = 0, period_start = (2024, 1, 1)\<rparr>]
   = (Inr \<lparr>allowed = True, currentUsage = 0, limit = Infinity, remaining = Infinity,
           planType = Premium\<rparr>,
      [\<lparr>usage_id = 1, usage_user_id = ''user-1'', ocr_count = 70, export_count = 3,
        ai_assistant_count = 0, period_start = (2024, 1, 1)\<rparr>])"
proof -
  have h1: "getUserPlanType no_faults
     [\<lparr>sub_id = 1, user_id = ''user-1'', stripe_customer_id = Some ''cus_1'',
       stripe_subscription_id = Some ''sub_1'', plan_type = Premium, status = Active,
       current_period_start = Some 1704067200000, current_period_end = Some 1706745600000,
       updated_at = 1704067200000\<rparr>] ''user-1'' = Inr Premium"
    by code_simp
  have h2: "Premium \<noteq> Free" by simp
  show ?thesis using paid_plan_unlimited[OF h1 h2] by simp
qed

subsection \<open>Monotone counters, one ledger entry per month\<close>

text \<open>
  Claim C8. On a ledger that satisfies the constraints of the schema, each of
  \<open>checkUsageLimit\<close>, \<open>getMonthlyUsage\<close> and \<open>incrementUsage\<close> leaves every entry in place
  with no counter lower than before. A successful \<open>incrementUsage\<close> raises the counter
  of its feature in the entry of the current month by exactly 1 and changes no other
  counter of any user, month or feature. Calls in different calendar months use
  different period keys, hence different entries: an increment on 2024-01-31 and a
  check on 2024-02-01 do not share a counter. In a month without an entry the entry is
  created with all counters 0 and added to the ledger, the older entries unchanged.
  Each operation is one step on the ledger; requests that interleave are not part of
  the statement.
\<close>

theorem usage_counters_monotone_scoped:
  assumes "usage_table_ok rows"
  shows "ledger_le rows (snd (checkUsageLimit f now subs userId feature rows)) \<and>
         ledger_le rows (snd (getMonthlyUsage f now subs userId rows)) \<and>
         ledger_le rows (snd (incrementUsage f now userId feature rows)) \<and>
         (\<forall>rows'. incrementUsage f now userId feature rows = (Inr (), rows') \<longrightarrow>
            ledger_count rows' userId (periodStartString now) feature
              = ledger_count rows userId (periodStartString now) feature + 1 \<and>
            (\<forall>u p ft. (u, p, ft) \<noteq> (userId, periodStartString now, feature) \<longrightarrow>
               ledger_count rows' u p ft = ledger_count rows u p ft)) \<and>
         (\<forall>later. clock_ok now \<and> clock_ok later \<and>
            (fullYear later, monthIndex later) \<noteq> (fullYear now, monthIndex now) \<longrightarrow>
            periodStartString later \<noteq> periodStartString now) \<and>
         (\<forall>r rows'. filter (period_row userId (periodStartString now)) rows = [] \<and>
            getOrCreateUsageRecord f now userId rows = (Inr r, rows') \<longrightarrow>
            r = zero_row (fresh_usage_id rows) userId (periodStartString now) \<and>
            rows' = rows @ [r])"
proof (intro conjI allI impI)
  show "ledger_le rows (snd (checkUsageLimit f now subs userId feature rows))"
    by (rule checkUsageLimit_ledger_le)
  show "ledger_le rows (snd (getMonthlyUsage f now subs userId rows))"
    by (rule getMonthlyUsage_ledger_le)
  show "ledger_le rows (snd (incrementUsage f now userId feature rows))"
    using assms by (rule incrementUsage_ledger_le)
next
  fix rows' assume "incrementUsage f now userId feature rows = (Inr (), rows')"
  with assms show "ledger_count rows' userId (periodStartString now) feature
      = ledger_count rows userId (periodStartString now) feature + 1"
    by (simp add: incrementUsage_step)
next
  fix rows' u p ft
  assume "incrementUsage f now userId feature rows = (Inr (), rows')"
    and "(u, p, ft) \<noteq> (userId, periodStartString now, feature)"
  with assms show "ledger_count rows' u p ft = ledger_count rows u p ft"
    by (rule incrementUsage_frame)
next
  fix later
  assume "clock_ok now \<and> clock_ok later \<and>
          (fullYear later, monthIndex later) \<noteq> (fullYear now, monthIndex now)"
  then show "periodStartString later \<noteq> periodStartString now"
    by (simp add: period_keys_differ)
next
  fix r rows'
  assume a: "filter (period_row userId (periodStartString now)) rows = [] \<and>
             getOrCreateUsageRecord f now userId rows = (Inr r, rows')"
  then have "getOrCreateUsageRecord f now userId rows = (Inr r, rows')" by simp
  then have c: "(rows' = rows \<and> filter (period_row userId (periodStartString now)) rows = [r]) \<or>
         (rows' = rows @ [r] \<and> filter (period_row userId (periodStartString now)) rows = [] \<and>
          r = zero_row (fresh_usage_id rows) userId (periodStartString now))"
    by (rule getOrCreate_cases)
  from a c show "r = zero_row (fresh_usage_id rows) userId (periodStartString now)" by auto
  from a c show "rows' = rows @ [r]" by auto
qed

theorem usage_counters_monotone_scoped_witness:
  "incrementUsage no_faults utc_2024_01_31 ''user-1'' Export [] =
     (Inr (), [\<lparr>usage_id = 1, usage_user_id = ''user-1'', ocr_count = 0, export_count = 1,
                ai_assistant_count = 0, period_start = (2024, 1, 1)\<rparr>]) \<and>
   periodStartString utc_2024_02_01 \<noteq> periodStartString utc_2024_01_31 \<and>
   checkUsageLimit no_faults utc_2024_02_01 [] ''user-1'' Export
     [\<lparr>usage_id = 1, usage_user_id = ''user-1'', ocr_count = 0, export_count = 1,
       ai_assistant_count = 0, period_start = (2024, 1, 1)\<rparr>] =
     (Inr \<lparr>allowed = True, currentUsage = 0, limit = Number 3, remaining = Number 3,
           planType = Free\<rparr>,
      [\<lparr>usage_id = 1, usage_user_id = ''user-1'', ocr_count = 0, export_count = 1,
        ai_assistant_count = 0, period_start = (2024, 1, 1)\<rparr>,
       \<lparr>usage_id = 2, usage_user_id = ''user-1'', ocr_count = 0, export_count = 0,
        ai_assistant_count = 0, period_start = (2024, 2, 1)\<rparr>]) \<and>
   ledger_count
     [\<lparr>usage_id = 1, usage_user_id = ''user-1'', ocr_count = 0, export_count = 1,
       ai_assistant_count = 0, period_start = (2024, 1, 1)\<rparr>]
     ''user-1'' (2024, 2, 1) Export = 0"
proof -
  let ?jan = "\<lparr>usage_id = 1, usage_user_id = ''user-1'', ocr_count = 0, export_count = 1,
                ai_assistant_count = 0, period_start = (2024, 1, 1)\<rparr>"
  have ok: "usage_table_ok []" by code_simp
  have inc: "incrementUsage no_faults utc_2024_01_31 ''user-1'' Export [] = (Inr (), [?jan])"
    by code_simp
  have k1: "periodStartString utc_2024_01_31 = (2024, 1, 1)" by code_simp
  have c1: "clock_ok utc_2024_01_31" and c2: "clock_ok utc_2024_02_01" by code_simp+
  have m: "(fullYear utc_2024_02_01, monthIndex utc_2024_02_01)
           \<noteq> (fullYear utc_2024_01_31, monthIndex utc_2024_01_31)"
    by (simp add: utc_2024_02_01_def utc_2024_01_31_def)
  note t = usage_counters_monotone_scoped[OF ok, of no_faults utc_2024_01_31 "[]" "''user-1''" Export]
  have differ: "periodStartString utc_2024_02_01 \<noteq> periodStartString utc_2024_01_31"
    using t c1 c2 m by blast
  have "(''user-1'', (2024, 2, 1), Export) \<noteq> (''user-1'', periodStartString utc_2024_01_31, Export)"
    by (simp add: k1)
  then have "ledger_count [?jan] ''user-1'' (2024, 2, 1) Export
             = ledger_count [] ''user-1'' (2024, 2, 1) Export"
    using t inc by blast
  moreover have "ledger_count [] ''user-1'' (2024, 2, 1) Export = 0" by code_simp
  moreover have "checkUsageLimit no_faults utc_2024_02_01 [] ''user-1'' Export [?jan] =
     (Inr \<lparr>allowed = True, currentUsage = 0, limit = Number 3, remaining = Number 3,
           planType = Free\<rparr>,
      [?jan, \<lparr>usage_id = 2, usage_user_id = ''user-1'', ocr_count = 0, export_count = 0,
        ai_assistant_count = 0, period_start = (2024, 2, 1)\<rparr>])"
    by code_simp
  ultimately show ?thesis using inc differ by simp
qed

subsection \<open>The period key east of UTC\<close>

text \<open>
  Claim C9 says that an entry created by \<open>getOrCreateUsageRecord\<close> carries the first day
  of the calendar month of the call, for any offset of the executing environment. On a
  machine ahead of UTC the key is the last day of the month before: local midnight of
  the 1st lies on the previous UTC day. A call on 2024-01-15 at UTC+09:00 creates its
  entry under 2023-12-31.
\<close>

theorem period_start_east_of_utc:
  "getOrCreateUsageRecord no_faults jst_2024_01_15 ''user-1'' [] =
     (Inr \<lparr>usage_id = 1, usage_user_id = ''user-1'', ocr_count = 0, export_count = 0,
           ai_assistant_count = 0, period_start = (2023, 12, 31)\<rparr>,
      [\<lparr>usage_id = 1, usage_user_id = ''user-1'', ocr_count = 0, export_count = 0,
        ai_assistant_count = 0, period_start = (2023, 12, 31)\<rparr>])"
  by code_simp


section \<open>Properties of the webhook reconciler\<close>

subsection \<open>Auxiliary facts\<close>

lemma snd_applied [simp]: "snd (applied res) = snd res"
  by (cases res) (auto simp: applied_def split: sum.splits)

lemma plan_type_written_idem [simp]:
  "plan_type_written p (plan_type_written p previous) = plan_type_written p previous"
  by (cases p) simp_all









lemma truthy_Some: "truthy (Some x) = Some y \<Longrightarrow> y = x"
  by (auto simp: truthy_def split: if_splits)





lemma customers_kept_map:
  "(\<And>r. r \<in> set subs \<Longrightarrow> customer_kept r (g r)) \<Longrightarrow> customers_kept subs (map g subs)"
  by (simp add: customers_kept_def list_all2_map2 list_all2_same)

lemma customer_kept_refl: "customer_kept r r" by (simp add: customer_kept_def)

lemma customers_kept_refl: "customers_kept subs subs"
  using customers_kept_map[of subs "\<lambda>r. r"] by (simp add: customer_kept_refl)

lemma customers_kept_append: "customers_kept subs (subs @ xs)"
  by (simp add: customers_kept_def list_all2_same customer_kept_refl)

lemma customers_kept_trans:
  assumes "customers_kept xs ys" "customers_kept ys zs"
  shows "customers_kept xs zs"
proof -
  have l: "length xs \<le> length ys" "length ys \<le> length zs"
    using assms by (simp_all add: customers_kept_def)
  have a: "list_all2 customer_kept xs (take (length xs) ys)"
    using assms(1) by (simp add: customers_kept_def)
  have "list_all2 customer_kept ys (take (length ys) zs)"
    using assms(2) by (simp add: customers_kept_def)
  then have "list_all2 customer_kept (take (length xs) ys) (take (length xs) (take (length ys) zs))"
    by (rule list_all2_takeI)
  moreover have "take (length xs) (take (length ys) zs) = take (length xs) zs"
    using l by (simp add: min_def)
  ultimately have "list_all2 customer_kept xs (take (length xs) zs)"
    using a by (auto elim: list_all2_trans[rotated] simp: customer_kept_def)
  then show ?thesis using l by (simp add: customers_kept_def)
qed

lemma upsert_keeps_customer:
  "c \<noteq> [] \<Longrightarrow> customers_kept subs (snd (upsertSubscription f t u c s p st a b subs))"
  by (auto simp: upsertSubscription_def customers_kept_refl customers_kept_append
           intro!: customers_kept_map simp: customer_kept_def has_stripe_customer_def truthy_def)

lemma cancel_keeps_customer:
  "map stripe_customer_id (snd (cancelSubscription f t s subs)) = map stripe_customer_id subs"
  "customers_kept subs (snd (cancelSubscription f t s subs))"
  by (auto simp: cancelSubscription_def customers_kept_refl
           intro!: customers_kept_map simp: customer_kept_def has_stripe_customer_def)

lemma revert_keeps_customer:
  "map stripe_customer_id (snd (revertToFreePlan f t s subs)) = map stripe_customer_id subs"
  "customers_kept subs (snd (revertToFreePlan f t s subs))"
  by (auto simp: revertToFreePlan_def customers_kept_refl
           intro!: customers_kept_map simp: customer_kept_def has_stripe_customer_def)

lemma deleted_cases:
  "snd (handleSubscriptionDeleted sv t s subs) = subs \<or>
   snd (handleSubscriptionDeleted sv t s subs)
     = snd (cancelSubscription (db_faults sv) t (subscription_id s) subs) \<or>
   snd (handleSubscriptionDeleted sv t s subs)
     = snd (revertToFreePlan (db_faults sv) t (subscription_id s)
         (snd (cancelSubscription (db_faults sv) t (subscription_id s) subs)))"
  by (auto simp: handleSubscriptionDeleted_def split: sum.splits prod.splits)

lemma deleted_keeps_customer:
  "map stripe_customer_id (snd (handleSubscriptionDeleted sv t s subs)) = map stripe_customer_id subs"
  "customers_kept subs (snd (handleSubscriptionDeleted sv t s subs))"
  using deleted_cases[of sv t s subs]
  by (auto simp: cancel_keeps_customer revert_keeps_customer customers_kept_refl
           intro: customers_kept_trans[OF cancel_keeps_customer(2) revert_keeps_customer(2)])

lemma payment_failed_keeps_customer:
  "map stripe_customer_id (snd (handlePaymentFailed sv t i subs)) = map stripe_customer_id subs"
  "customers_kept subs (snd (handlePaymentFailed sv t i subs))"
  by (auto simp: handlePaymentFailed_def customers_kept_refl split: sum.splits option.splits
           intro!: customers_kept_map simp: customer_kept_def has_stripe_customer_def)

lemma updated_keeps_customer:
  "customerId_of (subscription_customer s) \<noteq> [] \<Longrightarrow>
   customers_kept subs (snd (handleSubscriptionUpdated sv t s subs))"
  by (simp add: handleSubscriptionUpdated_def customers_kept_refl upsert_keeps_customer
           split: sum.splits option.splits)

lemma checkout_keeps_customer:
  "customerId_of (session_customer session) \<noteq> [] \<Longrightarrow>
   customers_kept subs (snd (handleCheckoutCompleted sv t session subs))"
  by (simp add: handleCheckoutCompleted_def customers_kept_refl upsert_keeps_customer
           split: sum.splits option.splits)









lemma verify_fails:
  "constructEvent sv body signature = (\<lambda>_. None) \<Longrightarrow>
   \<exists>e. verifyStripeWebhook sv body signature = Inl e"
  by (auto simp: verifyStripeWebhook_def split: sum.splits option.splits)

subsection \<open>Rejecting unsigned requests\<close>

text \<open>
  Claim C4. A webhook request without a signature header, or with a signature whose
  verification fails (\<open>verifyStripeWebhook\<close> throws: the check of the Stripe library
  throws whatever the secret, or the webhook secret or the Stripe key is not
  configured), is answered with status 400, a client error, and the database,
  subscriptions and usage ledger alike, is left as it was.
\<close>

theorem unsigned_webhook_rejected:
  assumes "truthy (stripe_signature request) = None \<or>
           (\<exists>signature e. truthy (stripe_signature request) = Some signature \<and>
              verifyStripeWebhook sv (request_text request) signature = Inl e) \<or>
           (\<exists>signature. truthy (stripe_signature request) = Some signature \<and>
              constructEvent sv (request_text request) signature = (\<lambda>secret. None))"
  shows "POST sv t request db = (400, db)"
  using assms
proof (elim disjE exE conjE)
  assume "truthy (stripe_signature request) = None"
  then show ?thesis by (simp add: POST_def)
next
  fix signature e
  assume "truthy (stripe_signature request) = Some signature"
    and "verifyStripeWebhook sv (request_text request) signature = Inl e"
  then show ?thesis by (simp add: POST_def)
next
  fix signature
  assume s: "truthy (stripe_signature request) = Some signature"
    and "constructEvent sv (request_text request) signature = (\<lambda>secret. None)"
  then have "\<exists>e. verifyStripeWebhook sv (request_text request) signature = Inl e"
    by (simp add: verify_fails)
  then show ?thesis using s by (auto simp: POST_def)
qed

theorem unsigned_webhook_rejected_witness:
  "POST example_services 1706800000000 \<lparr>request_text = ''{}'', stripe_signature = None\<rparr>
     example_database = (400, example_database) \<and>
   verifyStripeWebhook example_services ''{}'' ''t=1,v1=forged'' = Inl SignatureVerificationFailed \<and>
   POST example_services 1706800000000
     \<lparr>request_text = ''{}'', stripe_signature = Some ''t=1,v1=forged''\<rparr>
     example_database = (400, example_database)"
proof -
  let ?missing = "\<lparr>request_text = ''{}'', stripe_signature = None\<rparr>"
  let ?forged = "\<lparr>request_text = ''{}'', stripe_signature = Some ''t=1,v1=forged''\<rparr>"
  have m: "truthy (stripe_signature ?missing) = None" by code_simp
  have s: "truthy (stripe_signature ?forged) = Some ''t=1,v1=forged''" by code_simp
  have v: "verifyStripeWebhook example_services ''{}'' ''t=1,v1=forged''
           = Inl SignatureVerificationFailed" by code_simp
  have h: "truthy (stripe_signature ?forged) = None \<or>
           (\<exists>signature e. truthy (stripe_signature ?forged) = Some signature \<and>
              verifyStripeWebhook example_services (request_text ?forged) signature = Inl e) \<or>
           (\<exists>signature. truthy (stripe_signature ?forged) = Some signature \<and>
              constructEvent example_services (request_text ?forged) signature = (\<lambda>secret. None))"
    using s v by simp
  show ?thesis
    using unsigned_webhook_rejected[of ?missing example_services 1706800000000 example_database]
          unsigned_webhook_rejected[OF h, of 1706800000000 example_database] m v
    by simp
qed

subsection \<open>The subscription-deleted transition\<close>

text \<open>
  Claim C3. With the database reachable, handling a subscription-deleted event first
  sets the status of every row that carries the subscription id to canceled
  (\<open>cancelSubscription\<close>). When the event is not a cancellation at period end the rows
  are then reverted: plan free, status active, subscription id and period bounds
  null. When it is one, the rows keep plan, subscription id and period bounds: of the
  Subscription Record (user, plan tier, billing status, customer ref, subscription
  ref, period bounds) only the status has changed. Rows of other subscriptions are not
  touched; a written row also carries the time of the write. A user on premium/active
  ends at \<open>{planTier: free, billingStatus: active, externalSubscriptionRef: null,
  periodStart: null, periodEnd: null}\<close>.
\<close>

theorem subscription_deleted_transition:
  assumes "createSupabaseAdminClient (process_env sv) = Inr ()"
    and "\<not> db_faults sv UpdateCanceled" and "\<not> db_faults sv UpdateFree"
  shows "cancelSubscription (db_faults sv) t (subscription_id s) subs =
           (Inr (), map (\<lambda>r. if stripe_subscription_id r = Some (subscription_id s)
                              then r\<lparr>status := Canceled, updated_at := t\<rparr> else r) subs) \<and>
         handleSubscriptionDeleted sv t s subs =
           (Inr Applied,
            map (\<lambda>r. if stripe_subscription_id r = Some (subscription_id s)
                      then (if cancel_at_period_end s
                            then r\<lparr>status := Canceled, updated_at := t\<rparr>
                            else r\<lparr>plan_type := Free, status := Active,
                                   stripe_subscription_id := None,
                                   current_period_start := None, current_period_end := None,
                                   updated_at := t\<rparr>)
                      else r) subs) \<and>
         map subscription_record (snd (handleSubscriptionDeleted sv t s subs)) =
           map (\<lambda>r. if stripe_subscription_id r = Some (subscription_id s)
                     then (if cancel_at_period_end s
                           then (subscription_record r)\<lparr>rec_billingStatus := Canceled\<rparr>
                           else (subscription_record r)
                                  \<lparr>rec_planTier := Free, rec_billingStatus := Active,
                                   rec_externalSubscriptionRef := None,
                                   rec_periodStart := None, rec_periodEnd := None\<rparr>)
                     else subscription_record r) subs"
  using assms
  by (simp add: handleSubscriptionDeleted_def cancelSubscription_def revertToFreePlan_def
                applied_def subscription_record_def)

theorem subscription_deleted_transition_witness:
  "map subscription_record
     (snd (handleSubscriptionDeleted example_services 1706000000000 premium_subscription [premium_row]))
   = [\<lparr>rec_userId = ''user-1'', rec_planTier = Free, rec_billingStatus = Active,
       rec_externalCustomerRef = Some ''cus_1'', rec_externalSubscriptionRef = None,
       rec_periodStart = None, rec_periodEnd = None\<rparr>] \<and>
   map subscription_record
     (snd (handleSubscriptionDeleted example_services 1706000000000
             (premium_subscription\<lparr>cancel_at_period_end := True\<rparr>) [premium_row]))
   = [\<lparr>rec_userId = ''user-1'', rec_planTier = Premium, rec_billingStatus = Canceled,
       rec_externalCustomerRef = Some ''cus_1'', rec_externalSubscriptionRef = Some ''sub_1'',
       rec_periodStart = Some 1704067200000, rec_periodEnd = Some 1706745600000\<rparr>]"
proof -
  have e: "createSupabaseAdminClient (process_env example_services) = Inr ()" by code_simp
  have c: "\<not> db_faults example_services UpdateCanceled" by code_simp
  have f: "\<not> db_faults example_services UpdateFree" by code_simp
  have i: "stripe_subscription_id premium_row = Some (subscription_id premium_subscription)" by code_simp
  have n: "\<not> cancel_at_period_end premium_subscription" by code_simp
  have r1: "subscription_record
              (premium_row\<lparr>plan_type := Free, status := Active, stripe_subscription_id := None,
                 current_period_start := None, current_period_end := None,
                 updated_at := 1706000000000\<rparr>)
            = \<lparr>rec_userId = ''user-1'', rec_planTier = Free, rec_billingStatus = Active,
               rec_externalCustomerRef = Some ''cus_1'', rec_externalSubscriptionRef = None,
               rec_periodStart = None, rec_periodEnd = None\<rparr>" by code_simp
  have r2: "subscription_record (premium_row\<lparr>status := Canceled, updated_at := 1706000000000\<rparr>)
            = \<lparr>rec_userId = ''user-1'', rec_planTier = Premium, rec_billingStatus = Canceled,
               rec_externalCustomerRef = Some ''cus_1'',
               rec_externalSubscriptionRef = Some ''sub_1'',
               rec_periodStart = Some 1704067200000, rec_periodEnd = Some 1706745600000\<rparr>"
    by code_simp
  show ?thesis
    using subscription_deleted_transition[OF e c f, of 1706000000000 premium_subscription "[premium_row]"]
          subscription_deleted_transition[OF e c f, of 1706000000000
            "premium_subscription\<lparr>cancel_at_period_end := True\<rparr>" "[premium_row]"]
          i n r1 r2
    by simp
qed

subsection \<open>The customer id\<close>

text \<open>
  Claim C10. No transition of the reconciler clears the Stripe customer of a
  subscription once it is set. The events are those that name the customer they are
  about: the program creates its checkout sessions in subscription mode for the Stripe
  customer of the user, and a Stripe subscription belongs to a customer, so the
  customer field that the handlers of checkout-completed and subscription-updated read
  holds an id. After any such event every row is still there, for the same user, and a
  row that had a Stripe customer has one. A subscription-deleted event, at period end
  or immediate, and a payment-failed event leave the customer id of every row exactly
  as it was, also where the immediate deletion nulls the subscription id and the
  period bounds.
\<close>

theorem customer_id_kept:
  assumes "\<forall>session. ev = Checkout_session_completed session
             \<longrightarrow> customerId_of (session_customer session) \<noteq> []"
    and "\<forall>s. ev = Customer_subscription_updated s
             \<longrightarrow> customerId_of (subscription_customer s) \<noteq> []"
  shows "customers_kept subs (snd (handleEvent sv t ev subs)) \<and>
         (\<forall>s. ev = Customer_subscription_deleted s \<longrightarrow>
            map stripe_customer_id (snd (handleEvent sv t ev subs))
              = map stripe_customer_id subs) \<and>
         (\<forall>i. ev = Invoice_payment_failed i \<longrightarrow>
            map stripe_customer_id (snd (handleEvent sv t ev subs))
              = map stripe_customer_id subs)"
proof (cases ev)
  case (Checkout_session_completed x)
  then show ?thesis using assms(1) by (simp add: checkout_keeps_customer)
next
  case (Customer_subscription_updated x)
  then show ?thesis using assms(2) by (simp add: updated_keeps_customer)
next
  case (Customer_subscription_deleted x)
  then show ?thesis by (simp add: deleted_keeps_customer)
next
  case (Invoice_payment_failed x)
  then show ?thesis by (simp add: payment_failed_keeps_customer)
next
  case (Other_event x)
  then show ?thesis by (simp add: customers_kept_refl)
qed

theorem customer_id_kept_witness:
  "has_stripe_customer premium_row \<and>
   customers_kept [premium_row]
     (snd (handleEvent example_services 1706800000000
             (Customer_subscription_updated moved_to_standard) [premium_row])) \<and>
   customers_kept [premium_row]
     (snd (handleEvent example_services 1706800000000
             (Checkout_session_completed completed_session) [premium_row])) \<and>
   snd (handleEvent example_services 1706000000000
          (Customer_subscription_deleted premium_subscription) [premium_row])
   = [premium_row\<lparr>plan_type := Free, status := Active, stripe_subscription_id := None,
        current_period_start := None, current_period_end := None,
        updated_at := 1706000000000\<rparr>] \<and>
   map stripe_customer_id
     (snd (handleEvent example_services 1706000000000
             (Customer_subscription_deleted premium_subscription) [premium_row]))
   = [Some ''cus_1'']"
proof -
  have h: "has_stripe_customer premium_row" by code_simp
  have c1: "customerId_of (subscription_customer moved_to_standard) \<noteq> []" by code_simp
  have c2: "customerId_of (session_customer completed_session) \<noteq> []" by code_simp
  have a: "snd (handleEvent example_services 1706000000000
                  (Customer_subscription_deleted premium_subscription) [premium_row])
           = [premium_row\<lparr>plan_type := Free, status := Active, stripe_subscription_id := None,
                current_period_start := None, current_period_end := None,
                updated_at := 1706000000000\<rparr>]" by code_simp
  have b: "map stripe_customer_id [premium_row] = [Some ''cus_1'']" by code_simp
  have up: "customers_kept [premium_row]
     (snd (handleEvent example_services 1706800000000
             (Customer_subscription_updated moved_to_standard) [premium_row]))"
    using customer_id_kept[of "Customer_subscription_updated moved_to_standard" "[premium_row]"
            example_services 1706800000000] c1
    by simp
  have co: "customers_kept [premium_row]
     (snd (handleEvent example_services 1706800000000
             (Checkout_session_completed completed_session) [premium_row]))"
    using customer_id_kept[of "Checkout_session_completed completed_session" "[premium_row]"
            example_services 1706800000000] c2
    by simp
  have de: "map stripe_customer_id
     (snd (handleEvent example_services 1706000000000
             (Customer_subscription_deleted premium_subscription) [premium_row]))
     = map stripe_customer_id [premium_row]"
    using customer_id_kept[of "Customer_subscription_deleted premium_subscription" "[premium_row]"
            example_services 1706000000000]
    by simp
  show ?thesis using h up co de a b by simp
qed

subsection \<open>An unknown price\<close>

text \<open>
  A subscription-updated event whose price id the lookup \<open>getPlanTypeFromPriceId\<close>
  answers with null changes nothing: the subscriptions table after the handler is the
  table before it. The handler ends by logging an error and returning: the error of
  the unknown price id whenever the user of the event can be determined, otherwise the
  error of the unknown user; it throws only when the database client cannot be
  configured. The lookup answers null for a price id that is neither a key of
  \<open>PRICE_ID_TO_PLAN\<close> nor the name of a member of \<open>Object.prototype\<close>.
\<close>

lemma lookup_null:
  assumes "PRICE_ID_TO_PLAN env priceId = None"
    and "priceId \<notin> set Object_prototype_methods" and "priceId \<noteq> ''__proto__''"
  shows "getPlanTypeFromPriceId env priceId = None"
  using assms by (simp add: getPlanTypeFromPriceId_def property_of_PRICE_ID_TO_PLAN_def)

lemma unknown_price_dropped:
  assumes "subscription_price_id s = Some priceId"
    and "getPlanTypeFromPriceId (process_env sv) priceId = None"
  shows "snd (handleEvent sv t (Customer_subscription_updated s) subs) = subs \<and>
         fst (handleEvent sv t (Customer_subscription_updated s) subs)
           \<in> {Inr Unknown_price_id, Inr No_user_id, Inl MissingEnvironment} \<and>
         (createSupabaseAdminClient (process_env sv) = Inr () \<and>
          truthy (subscription_metadata_supabase_user_id s) \<noteq> None \<longrightarrow>
            handleEvent sv t (Customer_subscription_updated s) subs = (Inr Unknown_price_id, subs))"
proof -
  have p: "plan_of_price (process_env sv) (subscription_price_id s) = None"
    using assms
    by (auto simp: plan_of_price_def split: option.splits dest: truthy_Some)
  have 1: "snd (handleSubscriptionUpdated sv t s subs) = subs"
    using p by (simp add: handleSubscriptionUpdated_def split: sum.splits option.splits)
  have 2: "fst (handleSubscriptionUpdated sv t s subs)
           \<in> {Inr Unknown_price_id, Inr No_user_id, Inl MissingEnvironment}"
    using p
    by (auto simp: handleSubscriptionUpdated_def createSupabaseAdminClient_def
             split: sum.splits option.splits)
  have 3: "createSupabaseAdminClient (process_env sv) = Inr () \<and>
          truthy (subscription_metadata_supabase_user_id s) \<noteq> None \<longrightarrow>
            handleSubscriptionUpdated sv t s subs = (Inr Unknown_price_id, subs)"
    using p by (auto simp: handleSubscriptionUpdated_def)
  show ?thesis using 1 2 3 by simp
qed

lemma price_enterprise_dropped:
  "handleEvent example_services 1706800000000 (Customer_subscription_updated unknown_price)
     [premium_row] = (Inr Unknown_price_id, [premium_row]) \<and>
   POST example_services 1706800000000
     \<lparr>request_text = ''{}'', stripe_signature = Some ''t=1,v1=valid''\<rparr> example_database
   = (200, example_database)"
  by code_simp

text \<open>
  Claim C7 says that a validly signed subscription-updated event whose price id is not
  in the plan catalog mapping is rejected and leaves the row of the subscription
  completely unchanged, without defaulting to some plan. The code does not do so for
  the price id \<open>constructor\<close>. It is not a key of \<open>PRICE_ID_TO_PLAN\<close>, but indexing the
  object finds the inherited method of that name, which is truthy, so the handler
  passes its test for an unknown price and upserts: the row of the user gets the
  customer id, subscription id, status and period bounds of the event, and a user who
  has no row yet gets one on the free plan. The endpoint answers 200.
\<close>

theorem inherited_name_price_applied:
  "PRICE_ID_TO_PLAN example_env ''constructor'' = None \<and>
   getPlanTypeFromPriceId example_env ''constructor'' = Some Inherited_function \<and>
   handleEvent example_services 1706800000000 (Customer_subscription_updated constructor_price)
     [premium_row]
   = (Inr Applied,
      [premium_row\<lparr>stripe_customer_id := Some ''cus_2'', stripe_subscription_id := Some ''sub_2'',
         status := Past_due, current_period_start := Some 1706745600000,
         current_period_end := Some 1709251200000, updated_at := 1706800000000\<rparr>]) \<and>
   handleEvent example_services 1706800000000 (Customer_subscription_updated constructor_price) []
   = (Inr Applied,
      [\<lparr>sub_id = 1, user_id = ''user-1'', stripe_customer_id = Some ''cus_2'',
        stripe_subscription_id = Some ''sub_2'', plan_type = Free, status = Past_due,
        current_period_start = Some 1706745600000, current_period_end = Some 1709251200000,
        updated_at = 1706800000000\<rparr>]) \<and>
   POST constructor_services 1706800000000
     \<lparr>request_text = ''{}'', stripe_signature = Some ''t=1,v1=valid''\<rparr> example_database
   = (200,
      example_database
        \<lparr>subscriptions :=
           [premium_row\<lparr>stripe_customer_id := Some ''cus_2'',
              stripe_subscription_id := Some ''sub_2'', status := Past_due,
              current_period_start := Some 1706745600000,
              current_period_end := Some 1709251200000, updated_at := 1706800000000\<rparr>]\<rparr>)"
  by code_simp

subsection \<open>Applying an event twice\<close>




section \<open>Properties of the metered features\<close>

subsection \<open>Auxiliary facts\<close>

lemma getOrCreate_counts:
  assumes "getOrCreateUsageRecord f now userId rows = (res, rows')"
  shows "ledger_count rows' u p ft = ledger_count rows u p ft"
proof (cases res)
  case (Inl e)
  then show ?thesis using assms by (auto dest: getOrCreate_error_unchanged)
next
  case (Inr r)
  then have c: "(rows' = rows \<and> filter (period_row userId (periodStartString now)) rows = [r]) \<or>
         (rows' = rows @ [r] \<and> filter (period_row userId (periodStartString now)) rows = [] \<and>
          r = zero_row (fresh_usage_id rows) userId (periodStartString now))"
    using assms by (auto dest: getOrCreate_cases)
  show ?thesis
  proof (cases "rows' = rows")
    case True then show ?thesis by simp
  next
    case False
    then have a: "rows' = rows @ [r]"
      and e: "filter (period_row userId (periodStartString now)) rows = []"
      and z: "r = zero_row (fresh_usage_id rows) userId (periodStartString now)"
      using c by auto
    show ?thesis
    proof (cases "period_row u p r")
      case True
      then have "u = userId" "p = periodStartString now"
        by (simp_all add: z zero_row_def period_row_def)
      then show ?thesis using a e z
        by (cases ft) (simp_all add: ledger_count_def single_def zero_row_def period_row_def)
    next
      case False
      then show ?thesis using a by (simp add: ledger_count_def)
    qed
  qed
qed

lemma checkUsageLimit_counts:
  "ledger_count (snd (checkUsageLimit f now subs userId feature rows)) u p ft
   = ledger_count rows u p ft"
  by (auto simp: checkUsageLimit_def Let_def split: sum.splits prod.splits
           dest: getOrCreate_counts)

lemma ocr_not_200:
  assumes "fst (fst (ocr_POST now w subs rows)) \<noteq> 200"
  shows "ledger_count (snd (ocr_POST now w subs rows)) u p ft = ledger_count rows u p ft"
proof (cases "auth_user w")
  case None
  then show ?thesis by (simp add: ocr_POST_def)
next
  case (Some user)
  obtain res rows1 where c: "checkUsageLimit (faults_at_check w) now subs user Ocr rows = (res, rows1)"
    by (cases "checkUsageLimit (faults_at_check w) now subs user Ocr rows")
  have k: "ledger_count rows1 u p ft = ledger_count rows u p ft"
    using checkUsageLimit_counts[of "faults_at_check w" now subs user Ocr rows u p ft] c by simp
  have "snd (ocr_POST now w subs rows) = rows1"
    using assms Some c
    by (auto simp: ocr_POST_def ocr_error_status_def
             split: sum.splits option.splits completion.splits if_splits)
  then show ?thesis using k by simp
qed

lemma ocr_200:
  assumes "fst (fst (ocr_POST now w subs rows)) = 200"
  shows "\<exists>user usageCheck rows1 resultText ocrResult.
           auth_user w = Some user \<and>
           checkUsageLimit (faults_at_check w) now subs user Ocr rows = (Inr usageCheck, rows1) \<and>
           allowed usageCheck \<and>
           chat_completion w = Api_returns (Some resultText) \<and>
           JSON_parse w resultText = Some ocrResult \<and>
           ocr_POST now w subs rows =
             ((200, Success ocrResult (snapshot_after usageCheck)),
              snd (incrementUsage (faults_at_increment w) now user Ocr rows1))"
  using assms
  by (auto simp: ocr_POST_def ocr_error_status_def snapshot_after_def truthy_def
           split: sum.splits option.splits completion.splits if_splits prod.splits)

lemma ocr_response_independent:
  "fst (ocr_POST now (w\<lparr>faults_at_increment := g\<rparr>) subs rows) = fst (ocr_POST now w subs rows)"
  by (simp add: ocr_POST_def split: sum.splits option.splits completion.splits prod.splits)

lemma ai_not_200:
  assumes "fst (fst (ai_assistant_POST now w subs rows)) \<noteq> 200"
  shows "ledger_count (snd (ai_assistant_POST now w subs rows)) u p ft = ledger_count rows u p ft"
proof (cases "auth_user w")
  case None
  then show ?thesis by (simp add: ai_assistant_POST_def)
next
  case (Some user)
  obtain res rows1 where
    c: "checkUsageLimit (faults_at_check w) now subs user Ai_assistant rows = (res, rows1)"
    by (cases "checkUsageLimit (faults_at_check w) now subs user Ai_assistant rows")
  have k: "ledger_count rows1 u p ft = ledger_count rows u p ft"
    using checkUsageLimit_counts[of "faults_at_check w" now subs user Ai_assistant rows u p ft] c
    by simp
  have "snd (ai_assistant_POST now w subs rows) = rows1"
    using assms Some c
    by (auto simp: ai_assistant_POST_def ai_error_status_def
             split: sum.splits option.splits completion.splits if_splits)
  then show ?thesis using k by simp
qed

lemma ai_200:
  assumes "fst (fst (ai_assistant_POST now w subs rows)) = 200"
  shows "\<exists>user usageCheck rows1 assistantMessage.
           auth_user w = Some user \<and>
           checkUsageLimit (faults_at_check w) now subs user Ai_assistant rows
             = (Inr usageCheck, rows1) \<and>
           allowed usageCheck \<and>
           chat_completion w = Api_returns (Some assistantMessage) \<and>
           ai_assistant_POST now w subs rows =
             ((200, Success assistantMessage (snapshot_after usageCheck)),
              snd (incrementUsage (faults_at_increment w) now user Ai_assistant rows1))"
  using assms
  by (auto simp: ai_assistant_POST_def ai_error_status_def snapshot_after_def truthy_def
           split: sum.splits option.splits completion.splits if_splits prod.splits)

lemma ai_response_independent:
  "fst (ai_assistant_POST now (w\<lparr>faults_at_increment := g\<rparr>) subs rows)
   = fst (ai_assistant_POST now w subs rows)"
  by (simp add: ai_assistant_POST_def split: sum.splits option.splits completion.splits prod.splits)

lemma export_failed:
  assumes "fst (handleExport now w subs rows) \<noteq> None"
  shows "ledger_count (snd (handleExport now w subs rows)) u p ft = ledger_count rows u p ft"
proof (cases "export_auth_user w")
  case None
  then show ?thesis by (simp add: handleExport_def)
next
  case (Some user)
  obtain res rows1 where
    c: "checkUsageLimit (export_faults_at_check w) now subs user Export rows = (res, rows1)"
    by (cases "checkUsageLimit (export_faults_at_check w) now subs user Export rows")
  have k: "ledger_count rows1 u p ft = ledger_count rows u p ft"
    using checkUsageLimit_counts[of "export_faults_at_check w" now subs user Export rows u p ft] c
    by simp
  have "snd (handleExport now w subs rows) = rows1"
    using assms Some c
    by (auto simp: handleExport_def split: sum.splits option.splits if_splits)
  then show ?thesis using k by simp
qed

lemma export_done:
  assumes "fst (handleExport now w subs rows) = None"
  shows "\<exists>user usageCheck rows1 salesData expensesData.
           export_auth_user w = Some user \<and>
           checkUsageLimit (export_faults_at_check w) now subs user Export rows
             = (Inr usageCheck, rows1) \<and>
           allowed usageCheck \<and>
           sales_result w = Some salesData \<and> expenses_result w = Some expensesData \<and>
           \<not> download_throws w \<and>
           snd (handleExport now w subs rows)
             = snd (incrementUsage (export_faults_at_increment w) now user Export rows1)"
  using assms
  by (auto simp: handleExport_def split: sum.splits option.splits if_splits prod.splits)

lemma export_result_independent:
  "fst (handleExport now (w\<lparr>export_faults_at_increment := g\<rparr>) subs rows)
   = fst (handleExport now w subs rows)"
  by (simp add: handleExport_def split: sum.splits option.splits prod.splits)

subsection \<open>Increment after success\<close>

text \<open>
  Claim C5 says of every metered feature that its endpoint increments only after the
  external operation succeeded, swallows a failing increment, and still returns success
  with the snapshot \<open>{currentUsage + 1, limit, remaining - 1}\<close>. The export, the third
  metered feature, is a click handler in the browser: it increments after the download
  and swallows a failing increment, but it returns nothing, hence no snapshot. After a
  successful export by a user on the free plan the counter is 1 and the handler has set
  no error and produced no snapshot.
\<close>

theorem export_returns_no_snapshot:
  "handleExport utc_2024_01_31 export_request [] [] =
     (None, [\<lparr>usage_id = 1, usage_user_id = ''user-1'', ocr_count = 0, export_count = 1,
              ai_assistant_count = 0, period_start = (2024, 1, 1)\<rparr>]) \<and>
   usage_snapshot (Handler (fst (handleExport utc_2024_01_31 export_request [] []))) = None \<and>
   usage_snapshot (Handler (fst (handleExport utc_2024_01_31 export_request [] [])))
     \<noteq> Some \<lparr>info_currentUsage = 1, info_limit = Number 3, info_remaining = Number 2,
              info_planType = Free\<rparr>"
  by code_simp

text \<open>
  Claim C5, amended. For the OCR endpoint and the AI assistant endpoint: a response
  other than 200 (not logged in, entitlement denied, invalid input, failure of the
  external service) leaves every counter of the ledger as it was; a response 200 means
  that the check allowed the call and the external operation returned its result, the
  ledger is then what \<open>incrementUsage\<close> leaves, and the body carries the snapshot computed
  from the result of the check; the response does not depend on what happens inside
  \<open>incrementUsage\<close>, so a failing increment is swallowed and nothing is read again. For
  the export handler: a run that sets an error leaves every counter as it was; a run
  without error has passed the check, fetched the data and written the file before
  \<open>incrementUsage\<close> ran; its result does not depend on what happens inside
  \<open>incrementUsage\<close>; it carries no snapshot.
\<close>

theorem metered_increment_after_success:
  "(fst (fst (ocr_POST now w subs rows)) \<noteq> 200 \<longrightarrow>
      (\<forall>u p ft. ledger_count (snd (ocr_POST now w subs rows)) u p ft = ledger_count rows u p ft)) \<and>
   (fst (fst (ocr_POST now w subs rows)) = 200 \<longrightarrow>
      (\<exists>user usageCheck rows1 resultText ocrResult.
         auth_user w = Some user \<and>
         checkUsageLimit (faults_at_check w) now subs user Ocr rows = (Inr usageCheck, rows1) \<and>
         allowed usageCheck \<and>
         chat_completion w = Api_returns (Some resultText) \<and>
         JSON_parse w resultText = Some ocrResult \<and>
         ocr_POST now w subs rows =
           ((200, Success ocrResult (snapshot_after usageCheck)),
            snd (incrementUsage (faults_at_increment w) now user Ocr rows1)))) \<and>
   (\<forall>g. fst (ocr_POST now (w\<lparr>faults_at_increment := g\<rparr>) subs rows)
          = fst (ocr_POST now w subs rows)) \<and>
   (fst (fst (ai_assistant_POST now w subs rows)) \<noteq> 200 \<longrightarrow>
      (\<forall>u p ft. ledger_count (snd (ai_assistant_POST now w subs rows)) u p ft
                 = ledger_count rows u p ft)) \<and>
   (fst (fst (ai_assistant_POST now w subs rows)) = 200 \<longrightarrow>
      (\<exists>user usageCheck rows1 assistantMessage.
         auth_user w = Some user \<and>
         checkUsageLimit (faults_at_check w) now subs user Ai_assistant rows
           = (Inr usageCheck, rows1) \<and>
         allowed usageCheck \<and>
         chat_completion w = Api_returns (Some assistantMessage) \<and>
         ai_assistant_POST now w subs rows =
           ((200, Success assistantMessage (snapshot_after usageCheck)),
            snd (incrementUsage (faults_at_increment w) now user Ai_assistant rows1)))) \<and>
   (\<forall>g. fst (ai_assistant_POST now (w\<lparr>faults_at_increment := g\<rparr>) subs rows)
          = fst (ai_assistant_POST now w subs rows)) \<and>
   (fst (handleExport now x subs rows) \<noteq> None \<longrightarrow>
      (\<forall>u p ft. ledger_count (snd (handleExport now x subs rows)) u p ft
                 = ledger_count rows u p ft)) \<and>
   (fst (handleExport now x subs rows) = None \<longrightarrow>
      (\<exists>user usageCheck rows1 salesData expensesData.
         export_auth_user x = Some user \<and>
         checkUsageLimit (export_faults_at_check x) now subs user Export rows
           = (Inr usageCheck, rows1) \<and>
         allowed usageCheck \<and>
         sales_result x = Some salesData \<and> expenses_result x = Some expensesData \<and>
         \<not> download_throws x \<and>
         snd (handleExport now x subs rows)
           = snd (incrementUsage (export_faults_at_increment x) now user Export rows1))) \<and>
   (\<forall>g. fst (handleExport now (x\<lparr>export_faults_at_increment := g\<rparr>) subs rows)
          = fst (handleExport now x subs rows)) \<and>
   usage_snapshot (Handler (fst (handleExport now x subs rows))) = None"
proof (intro conjI impI allI)
  fix u p ft
  assume "fst (fst (ocr_POST now w subs rows)) \<noteq> 200"
  then show "ledger_count (snd (ocr_POST now w subs rows)) u p ft = ledger_count rows u p ft"
    by (rule ocr_not_200)
next
  assume "fst (fst (ocr_POST now w subs rows)) = 200"
  then show "\<exists>user usageCheck rows1 resultText ocrResult.
         auth_user w = Some user \<and>
         checkUsageLimit (faults_at_check w) now subs user Ocr rows = (Inr usageCheck, rows1) \<and>
         allowed usageCheck \<and>
         chat_completion w = Api_returns (Some resultText) \<and>
         JSON_parse w resultText = Some ocrResult \<and>
         ocr_POST now w subs rows =
           ((200, Success ocrResult (snapshot_after usageCheck)),
            snd (incrementUsage (faults_at_increment w) now user Ocr rows1))"
    by (rule ocr_200)
next
  fix g
  show "fst (ocr_POST now (w\<lparr>faults_at_increment := g\<rparr>) subs rows)
          = fst (ocr_POST now w subs rows)"
    by (rule ocr_response_independent)
next
  fix u p ft
  assume "fst (fst (ai_assistant_POST now w subs rows)) \<noteq> 200"
  then show "ledger_count (snd (ai_assistant_POST now w subs rows)) u p ft
             = ledger_count rows u p ft"
    by (rule ai_not_200)
next
  assume "fst (fst (ai_assistant_POST now w subs rows)) = 200"
  then show "\<exists>user usageCheck rows1 assistantMessage.
         auth_user w = Some user \<and>
         checkUsageLimit (faults_at_check w) now subs user Ai_assistant rows
           = (Inr usageCheck, rows1) \<and>
         allowed usageCheck \<and>
         chat_completion w = Api_returns (Some assistantMessage) \<and>
         ai_assistant_POST now w subs rows =
           ((200, Success assistantMessage (snapshot_after usageCheck)),
            snd (incrementUsage (faults_at_increment w) now user Ai_assistant rows1))"
    by (rule ai_200)
next
  fix g
  show "fst (ai_assistant_POST now (w\<lparr>faults_at_increment := g\<rparr>) subs rows)
          = fst (ai_assistant_POST now w subs rows)"
    by (rule ai_response_independent)
next
  fix u p ft
  assume "fst (handleExport now x subs rows) \<noteq> None"
  then show "ledger_count (snd (handleExport now x subs rows)) u p ft = ledger_count rows u p ft"
    by (rule export_failed)
next
  assume "fst (handleExport now x subs rows) = None"
  then show "\<exists>user usageCheck rows1 salesData expensesData.
         export_auth_user x = Some user \<and>
         checkUsageLimit (export_faults_at_check x) now subs user Export rows
           = (Inr usageCheck, rows1) \<and>
         allowed usageCheck \<and>
         sales_result x = Some salesData \<and> expenses_result x = Some expensesData \<and>
         \<not> download_throws x \<and>
         snd (handleExport now x subs rows)
           = snd (incrementUsage (export_faults_at_increment x) now user Export rows1)"
    by (rule export_done)
next
  fix g
  show "fst (handleExport now (x\<lparr>export_faults_at_increment := g\<rparr>) subs rows)
          = fst (handleExport now x subs rows)"
    by (rule export_result_independent)
next
  show "usage_snapshot (Handler (fst (handleExport now x subs rows))) = None" by simp
qed

theorem metered_increment_after_success_witness:
  "incrementUsage update_fails utc_2024_01_31 ''user-1'' Ocr
     [zero_row 1 ''user-1'' (2024, 1, 1)]
     = (Inl UsageUpdateFailed, [zero_row 1 ''user-1'' (2024, 1, 1)]) \<and>
   ocr_POST utc_2024_01_31 (scan_request\<lparr>faults_at_increment := update_fails\<rparr>) [] [] =
     ((200, Success ''{amount: 5000}''
              \<lparr>info_currentUsage = 1, info_limit = Number 50, info_remaining = Number 49,
               info_planType = Free\<rparr>),
      [zero_row 1 ''user-1'' (2024, 1, 1)]) \<and>
   ocr_POST utc_2024_01_31 (scan_request\<lparr>chat_completion := Api_throws (Some 429)\<rparr>) []
     [zero_row 1 ''user-1'' (2024, 1, 1)]
     = ((429, Error_body), [zero_row 1 ''user-1'' (2024, 1, 1)]) \<and>
   ledger_count
     (snd (ocr_POST utc_2024_01_31 (scan_request\<lparr>chat_completion := Api_throws (Some 429)\<rparr>) []
             [zero_row 1 ''user-1'' (2024, 1, 1)]))
     ''user-1'' (2024, 1, 1) Ocr = 0"
proof -
  let ?rows = "[zero_row 1 ''user-1'' (2024, 1, 1)]"
  let ?down = "scan_request\<lparr>chat_completion := Api_throws (Some 429)\<rparr>"
  have inc: "incrementUsage update_fails utc_2024_01_31 ''user-1'' Ocr ?rows
             = (Inl UsageUpdateFailed, ?rows)" by code_simp
  have ok: "fst (ocr_POST utc_2024_01_31 scan_request [] []) =
     (200, Success ''{amount: 5000}''
              \<lparr>info_currentUsage = 1, info_limit = Number 50, info_remaining = Number 49,
               info_planType = Free\<rparr>)" by code_simp
  have led: "snd (ocr_POST utc_2024_01_31 (scan_request\<lparr>faults_at_increment := update_fails\<rparr>) [] [])
             = ?rows" by code_simp
  have same: "fst (ocr_POST utc_2024_01_31 (scan_request\<lparr>faults_at_increment := update_fails\<rparr>) [] [])
              = fst (ocr_POST utc_2024_01_31 scan_request [] [])"
    using metered_increment_after_success[of utc_2024_01_31 scan_request "[]" "[]"] by blast
  have r429: "ocr_POST utc_2024_01_31 ?down [] ?rows = ((429, Error_body), ?rows)" by code_simp
  have z: "ledger_count ?rows ''user-1'' (2024, 1, 1) Ocr = 0" by code_simp
  have "fst (fst (ocr_POST utc_2024_01_31 ?down [] ?rows)) \<noteq> 200" using r429 by simp
  then have kept: "ledger_count (snd (ocr_POST utc_2024_01_31 ?down [] ?rows))
                     ''user-1'' (2024, 1, 1) Ocr
                   = ledger_count ?rows ''user-1'' (2024, 1, 1) Ocr"
    using metered_increment_after_success[of utc_2024_01_31 ?down "[]" ?rows] by blast
  have full: "ocr_POST utc_2024_01_31 (scan_request\<lparr>faults_at_increment := update_fails\<rparr>) [] [] =
     ((200, Success ''{amount: 5000}''
              \<lparr>info_currentUsage = 1, info_limit = Number 50, info_remaining = Number 49,
               info_planType = Free\<rparr>), ?rows)"
    using same ok led by (simp add: prod_eq_iff)
  show ?thesis using inc full r429 kept z by simp
qed

end
